theory Spec2Isabelle
  imports Main
begin

section \<open>Python values, strings and exceptions\<close>

text \<open>
  The server of \<^verbatim>\<open>mqtt_io/server_trio.py\<close> reads a validated configuration
  (\<^verbatim>\<open>ConfigType\<close>, a nested dictionary of plain Python values), derives the
  connection options from it, and then drives an MQTT client, three IO modules and the
  trio scheduler. A Python \<^verbatim>\<open>str\<close> is a sequence of Unicode code points and
  \<^verbatim>\<open>bytes\<close> a sequence of numbers below 256; both are lists of naturals here.
  Dictionary keys are the ASCII literals the source writes, so keys are HOL strings and a
  dictionary is an association list.
\<close>

type_synonym str = "nat list"
type_synonym bytes = "nat list"

definition lit :: "string \<Rightarrow> str" where
  "lit s = map of_char s"

datatype pyval =
    PNone
  | PBool bool
  | PInt int
  | PStr str
  | PList "pyval list"
  | PDict "(string \<times> pyval) list"

datatype error =
    KeyError string
  | TypeError
  | AttributeError
  | UnicodeEncodeError
  | RuntimeError string
  | Cancelled
  | Raised nat

text \<open>
  \<^verbatim>\<open>Cancelled\<close> is \<^verbatim>\<open>trio.Cancelled\<close>, which trio raises at a checkpoint of a
  task whose cancel scope has been cancelled. \<^verbatim>\<open>Raised n\<close> stands for any other
  exception that a collaborator (the MQTT client, trio, an IO module) raises; the others
  are raised by the Python of this file.
\<close>

definition bindE :: "error + 'a \<Rightarrow> ('a \<Rightarrow> error + 'b) \<Rightarrow> error + 'b" where
  "bindE r f = (case r of Inl e \<Rightarrow> Inl e | Inr x \<Rightarrow> f x)"

text \<open>\<^verbatim>\<open>d[key]\<close> for a literal string key.\<close>

fun getitem :: "pyval \<Rightarrow> string \<Rightarrow> error + pyval" where
  "getitem (PDict d) k = (case map_of d k of None \<Rightarrow> Inl (KeyError k) | Some v \<Rightarrow> Inr v)"
| "getitem _ k = Inl TypeError"

text \<open>\<^verbatim>\<open>d.get(key)\<close> and \<^verbatim>\<open>d.get(key, default)\<close>: only a dictionary has the method.\<close>

fun get_default :: "pyval \<Rightarrow> string \<Rightarrow> pyval \<Rightarrow> error + pyval" where
  "get_default (PDict d) k dflt = (case map_of d k of None \<Rightarrow> Inr dflt | Some v \<Rightarrow> Inr v)"
| "get_default _ k dflt = Inl AttributeError"

text \<open>Truth value of an object, as \<^verbatim>\<open>not x\<close> and \<^verbatim>\<open>if x:\<close> read it.\<close>

fun truthy :: "pyval \<Rightarrow> bool" where
  "truthy PNone = False"
| "truthy (PBool b) = b"
| "truthy (PInt i) = (i \<noteq> 0)"
| "truthy (PStr s) = (s \<noteq> [])"
| "truthy (PList xs) = (xs \<noteq> [])"
| "truthy (PDict d) = (d \<noteq> [])"

text \<open>
  \<^verbatim>\<open>s.encode("utf8")\<close>: one to four bytes for each code point; a surrogate
  (U+D800 to U+DFFF) cannot be encoded and raises. Only a \<^verbatim>\<open>str\<close> has the method.
\<close>

definition utf8_codepoint :: "nat \<Rightarrow> error + bytes" where
  "utf8_codepoint c =
     (if c < 128 then Inr [c]
      else if c < 2048 then Inr [192 + c div 64, 128 + c mod 64]
      else if 55296 \<le> c \<and> c < 57344 then Inl UnicodeEncodeError
      else if c < 65536 then Inr [224 + c div 4096, 128 + c div 64 mod 64, 128 + c mod 64]
      else if c < 1114112 then
        Inr [240 + c div 262144, 128 + c div 4096 mod 64, 128 + c div 64 mod 64, 128 + c mod 64]
      else Inl UnicodeEncodeError)"

fun encode_utf8 :: "str \<Rightarrow> error + bytes" where
  "encode_utf8 [] = Inr []"
| "encode_utf8 (c # cs) =
     bindE (utf8_codepoint c) (\<lambda>b. bindE (encode_utf8 cs) (\<lambda>bs. Inr (b @ bs)))"

fun encode :: "pyval \<Rightarrow> error + bytes" where
  "encode (PStr s) = encode_utf8 s"
| "encode _ = Inl AttributeError"

text \<open>\<^verbatim>\<open>"/".join((a, b))\<close>: every item must be a \<^verbatim>\<open>str\<close>.\<close>

fun join_slash :: "pyval \<Rightarrow> pyval \<Rightarrow> error + str" where
  "join_slash (PStr a) (PStr b) = Inr (a @ lit ''/'' @ b)"
| "join_slash _ _ = Inl TypeError"

text \<open>
  \<^verbatim>\<open>key in x\<close> for a literal string key: membership of the key in a dictionary, of
  the string in a list, a substring test on a string; other values are not containers.
\<close>

fun starts_with :: "'a list \<Rightarrow> 'a list \<Rightarrow> bool" where
  "starts_with [] ys = True"
| "starts_with (x # xs) [] = False"
| "starts_with (x # xs) (y # ys) = (x = y \<and> starts_with xs ys)"

fun has_substring :: "'a list \<Rightarrow> 'a list \<Rightarrow> bool" where
  "has_substring xs [] = (xs = [])"
| "has_substring xs (y # ys) = (starts_with xs (y # ys) \<or> has_substring xs ys)"

fun contains :: "string \<Rightarrow> pyval \<Rightarrow> error + bool" where
  "contains k (PDict d) = Inr (map_of d k \<noteq> None)"
| "contains k (PList xs) = Inr (PStr (lit k) \<in> set xs)"
| "contains k (PStr s) = Inr (has_substring (lit k) s)"
| "contains k _ = Inl TypeError"

section \<open>Connection options\<close>

text \<open>
  \<^verbatim>\<open>MQTTTLSOptions\<close>, \<^verbatim>\<open>MQTTWill\<close>, \<^verbatim>\<open>MQTTMessageSend\<close> and
  \<^verbatim>\<open>MQTTClientOptions\<close> are the plain data classes of \<^verbatim>\<open>mqtt_io.mqtt\<close>;
  the fields are the keyword arguments the server passes.
\<close>

record mqtt_tls_options =
  ca_certs :: pyval
  certfile :: pyval
  keyfile :: pyval
  ciphers :: pyval

record mqtt_will =
  will_topic :: str
  will_payload :: bytes
  will_qos :: int
  will_retain :: bool

record mqtt_message_send =
  send_topic :: str
  send_payload :: bytes
  send_qos :: int
  send_retain :: bool

record mqtt_client_options =
  hostname :: pyval
  port :: pyval
  username :: pyval
  password :: pyval
  client_id :: pyval
  keepalive :: pyval
  clean_session :: pyval
  tls_options :: "mqtt_tls_options option"
  will :: "mqtt_will option"

text \<open>
  \<^verbatim>\<open>MQTTIO._init_mqtt_config\<close>. The parameter \<open>sha1_hexdigest\<close> is
  \<^verbatim>\<open>lambda b: hashlib.sha1(b).hexdigest()\<close> of the standard library. The argument is
  the whole configuration; \<open>config\<close> below is its \<^verbatim>\<open>"mqtt"\<close> section, as in the
  source.
\<close>

definition derive_client_id :: "(bytes \<Rightarrow> str) \<Rightarrow> pyval \<Rightarrow> pyval \<Rightarrow> error + pyval" where
  "derive_client_id sha1_hexdigest topic_prefix cid =
     (if \<not> truthy cid then
        bindE (encode topic_prefix) (\<lambda>b. Inr (PStr (lit ''mqtt-io-'' @ sha1_hexdigest b)))
      else Inr cid)"

definition make_tls_options :: "pyval \<Rightarrow> error + mqtt_tls_options option" where
  "make_tls_options config =
     bindE (get_default config ''tls'' (PDict [])) (\<lambda>tls.
     bindE (get_default tls ''enabled'' PNone) (\<lambda>tls_enabled.
     if truthy tls_enabled then
       bindE (getitem config ''tls'') (\<lambda>t1.
       bindE (get_default t1 ''ca_certs'' PNone) (\<lambda>ca.
       bindE (getitem config ''tls'') (\<lambda>t2.
       bindE (get_default t2 ''certfile'' PNone) (\<lambda>cert.
       bindE (getitem config ''tls'') (\<lambda>t3.
       bindE (get_default t3 ''keyfile'' PNone) (\<lambda>key.
       bindE (getitem config ''tls'') (\<lambda>t4.
       bindE (get_default t4 ''ciphers'' PNone) (\<lambda>ciph.
       Inr (Some \<lparr>ca_certs = ca, certfile = cert, keyfile = key, ciphers = ciph\<rparr>)))))))))
     else Inr None))"

definition make_will :: "pyval \<Rightarrow> pyval \<Rightarrow> error + mqtt_will" where
  "make_will config topic_prefix =
     bindE (getitem config ''status_topic'') (\<lambda>st.
     bindE (join_slash topic_prefix st) (\<lambda>t.
     bindE (getitem config ''status_payload_dead'') (\<lambda>dead.
     bindE (encode dead) (\<lambda>p.
     Inr \<lparr>will_topic = t, will_payload = p, will_qos = 1, will_retain = True\<rparr>))))"

definition init_mqtt_config :: "(bytes \<Rightarrow> str) \<Rightarrow> pyval \<Rightarrow> error + mqtt_client_options" where
  "init_mqtt_config sha1_hexdigest cfg =
     bindE (getitem cfg ''mqtt'') (\<lambda>config.
     bindE (getitem config ''topic_prefix'') (\<lambda>topic_prefix.
     bindE (getitem config ''client_id'') (\<lambda>cid0.
     bindE (derive_client_id sha1_hexdigest topic_prefix cid0) (\<lambda>cid.
     bindE (make_tls_options config) (\<lambda>tls.
     bindE (getitem config ''host'') (\<lambda>h.
     bindE (getitem config ''port'') (\<lambda>p.
     bindE (getitem config ''user'') (\<lambda>u.
     bindE (getitem config ''password'') (\<lambda>pw.
     bindE (getitem config ''keepalive'') (\<lambda>ka.
     bindE (getitem config ''clean_session'') (\<lambda>cs.
     bindE (make_will config topic_prefix) (\<lambda>w.
     Inr \<lparr>hostname = h, port = p, username = u, password = pw, client_id = cid,
          keepalive = ka, clean_session = cs, tls_options = tls, will = Some w\<rparr>))))))))))))"

section \<open>The server object, its collaborators and the calls it issues\<close>

text \<open>
  \<^verbatim>\<open>self.io_modules = [self.gpio, self.sensor, self.stream]\<close>: the three modules, named
  by their classes.
\<close>

datatype io_module = GPIO | SensorIO | StreamIO

text \<open>
  The two nurseries are named by the \<^verbatim>\<open>trio.open_nursery()\<close> that opens them: the one
  of \<^verbatim>\<open>run_async\<close> and the one of \<^verbatim>\<open>run_mqtt\<close>.
\<close>

datatype nursery = Main_nursery | Mqtt_nursery

datatype trio_token = Trio_token nat

text \<open>\<^verbatim>\<open>AnyIOMQTTClient(nursery, dict(client_id=..., clean_session=...))\<close>.\<close>

datatype anyio_mqtt_client = AnyIOMQTTClient nursery pyval pyval

text \<open>An incoming \<^verbatim>\<open>paho.MQTTMessage\<close>: the loop reads its topic and payload.\<close>

record mqtt_message =
  msg_topic :: str
  msg_payload :: bytes

datatype task =
    Handle_signals
  | Event_bus_run
  | Run_mqtt
  | Handle_messages
  | Handle_mqtt_msg io_module str bytes

datatype thread_fn = Wait_for_publish | Cleanup io_module

text \<open>
  Every call the server makes on a collaborator is an event; the field \<open>calls\<close> of the
  state is the list of the calls issued so far, in the order of issue. Logging
  (\<^verbatim>\<open>_LOG.debug\<close>, \<^verbatim>\<open>_LOG.warning\<close>) is left out: it reaches neither the broker
  client, nor a module, nor the scheduler, so the two \<^verbatim>\<open>try ... finally\<close> blocks,
  which only log, leave no trace either. An event says that the server issued the call,
  not that the collaborator did its work: a call that raises may have done nothing, as
  \<^verbatim>\<open>trio.to_thread.run_sync(f)\<close> does when it raises \<^verbatim>\<open>Cancelled\<close> on entry,
  before \<^verbatim>\<open>f\<close> runs. \<open>Ssl_context\<close> is the reading of
  \<^verbatim>\<open>options.tls_options.ssl_context\<close>, a property of the options that builds the
  context and may raise; only then is the context handed to the client
  (\<open>Tls_set_context\<close>).
\<close>

datatype event =
    Nursery_start nursery task
  | Start_soon nursery task
  | Task_started task
  | Open_signal_receiver
  | Client_new nursery pyval pyval
  | Enable_logger
  | Ssl_context mqtt_tls_options
  | Tls_set_context mqtt_tls_options
  | Username_pw_set pyval pyval
  | Connect pyval pyval pyval
  | Will_set str bytes int bool
  | Publish str bytes int bool
  | Set_connect_message str bytes int bool
  | Module_init io_module
  | Run_sync thread_fn
  | Disconnect
  | Disconnect_event_wait
  | Cancel_scope_cancel nursery

record server =
  config :: pyval
  mqtt_client_options :: mqtt_client_options
  priv_trio_token :: "trio_token option"
  priv_main_nursery :: "nursery option"
  priv_mqtt_nursery :: "nursery option"
  priv_mqtt :: "anyio_mqtt_client option"
  io_modules :: "io_module list"
  calls :: "event list"

text \<open>
  What the collaborators do is a parameter of every function:
  \<^item> \<open>outcome n ev\<close>: whether the call \<open>ev\<close>, issued as call number \<open>n\<close>, raises;
  \<^item> \<open>inbox n\<close>: the messages that the receive loop takes from \<^verbatim>\<open>client.messages\<close>
    while the task that issued call number \<open>n\<close> is suspended at its next
    \<^verbatim>\<open>await\<close>;
  \<^item> \<open>current_trio_token\<close>: the value of \<^verbatim>\<open>trio.lowlevel.current_trio_token()\<close>;
  \<^item> \<open>sha1_hexdigest\<close>: \<^verbatim>\<open>hashlib.sha1(b).hexdigest()\<close>;
  \<^item> the values of the modules' configuration dictionaries and the three
    \<^verbatim>\<open>hass_announce_*\<close> functions of \<^verbatim>\<open>mqtt_io.home_assistant\<close>.
\<close>

record env =
  outcome :: "nat \<Rightarrow> event \<Rightarrow> error option"
  inbox :: "nat \<Rightarrow> mqtt_message list"
  current_trio_token :: trio_token
  sha1_hexdigest :: "bytes \<Rightarrow> str"
  digital_input_configs :: "pyval list"
  digital_output_configs :: "pyval list"
  sensor_input_configs :: "pyval list"
  hass_announce_digital_input :: "pyval \<Rightarrow> pyval \<Rightarrow> mqtt_client_options \<Rightarrow> error + mqtt_message_send"
  hass_announce_digital_output :: "pyval \<Rightarrow> pyval \<Rightarrow> mqtt_client_options \<Rightarrow> error + mqtt_message_send"
  hass_announce_sensor_input :: "pyval \<Rightarrow> pyval \<Rightarrow> mqtt_client_options \<Rightarrow> error + mqtt_message_send"

text \<open>
  A method of the server is a function from the state to a result (\<open>Inl\<close> an exception)
  and the state it leaves.
\<close>

type_synonym 'a prog = "server \<Rightarrow> (error + 'a) \<times> server"

definition return :: "'a \<Rightarrow> 'a prog" where
  "return x s = (Inr x, s)"

definition lift :: "error + 'a \<Rightarrow> 'a prog" where
  "lift r s = (r, s)"

definition bindP :: "'a prog \<Rightarrow> ('a \<Rightarrow> 'b prog) \<Rightarrow> 'b prog" where
  "bindP m f s = (case m s of (Inl e, s') \<Rightarrow> (Inl e, s') | (Inr x, s') \<Rightarrow> f x s')"

definition seqP :: "unit prog \<Rightarrow> 'a prog \<Rightarrow> 'a prog" where
  "seqP m k = bindP m (\<lambda>_. k)"

definition gets :: "(server \<Rightarrow> 'a) \<Rightarrow> 'a prog" where
  "gets f s = (Inr (f s), s)"

definition modify :: "(server \<Rightarrow> server) \<Rightarrow> unit prog" where
  "modify f s = (Inr (), f s)"

text \<open>A call that does not suspend: it is recorded, and raises or returns.\<close>

definition call :: "env \<Rightarrow> event \<Rightarrow> unit prog" where
  "call env ev s =
     ((case outcome env (length (calls s)) ev of None \<Rightarrow> Inr () | Some e \<Rightarrow> Inl e),
      s\<lparr>calls := calls s @ [ev]\<rparr>)"

subsection \<open>The accessors\<close>

definition nursery :: "nursery prog" where
  "nursery s =
     (case priv_main_nursery s of
        None \<Rightarrow> (Inl (RuntimeError ''Nursery has not been initialised''), s)
      | Some n \<Rightarrow> (Inr n, s))"

definition mqtt :: "anyio_mqtt_client prog" where
  "mqtt s =
     (case priv_mqtt s of
        None \<Rightarrow> (Inl (RuntimeError ''MQTT is not initialised''), s)
      | Some c \<Rightarrow> (Inr c, s))"

definition trio_token :: "trio_token prog" where
  "trio_token s =
     (case priv_trio_token s of
        None \<Rightarrow> (Inl (RuntimeError ''Server has not yet been run()''), s)
      | Some t \<Rightarrow> (Inr t, s))"

subsection \<open>The constructor\<close>

text \<open>
  \<^verbatim>\<open>MQTTIO.__init__\<close>: the options are derived, the four private fields start as
  \<^verbatim>\<open>None\<close>, and the modules are registered in the order gpio, sensor, stream. The
  constructors of the event bus and of the modules are collaborators' code.
\<close>

definition mqttio_init :: "env \<Rightarrow> pyval \<Rightarrow> error + server" where
  "mqttio_init env cfg =
     bindE (init_mqtt_config (sha1_hexdigest env) cfg) (\<lambda>opts.
     Inr \<lparr>config = cfg, mqtt_client_options = opts, priv_trio_token = None,
          priv_main_nursery = None, priv_mqtt_nursery = None, priv_mqtt = None,
          io_modules = [GPIO, SensorIO, StreamIO], calls = []\<rparr>)"

subsection \<open>The receive loop\<close>

text \<open>
  \<^verbatim>\<open>handle_messages\<close> inside \<^verbatim>\<open>run_mqtt\<close>: for each message of
  \<^verbatim>\<open>client.messages\<close>, in order, and for each module of \<^verbatim>\<open>self.io_modules\<close>, in
  order, \<^verbatim>\<open>self.nursery.start_soon(io_module.handle_mqtt_msg, msg.topic, msg.payload)\<close>.
  \<^verbatim>\<open>start_soon\<close> spawns the handler as a task of the main nursery and returns at
  once: the loop never awaits a handler. The argument is the finite sequence of messages
  the loop takes.
\<close>

fun dispatch :: "env \<Rightarrow> mqtt_message \<Rightarrow> io_module list \<Rightarrow> unit prog" where
  "dispatch env msg [] = return ()"
| "dispatch env msg (m # ms) =
     bindP nursery (\<lambda>n.
     seqP (call env (Start_soon n (Handle_mqtt_msg m (msg_topic msg) (msg_payload msg))))
          (dispatch env msg ms))"

fun handle_messages :: "env \<Rightarrow> mqtt_message list \<Rightarrow> unit prog" where
  "handle_messages env [] = return ()"
| "handle_messages env (msg # msgs) =
     bindP (gets io_modules) (\<lambda>mods.
     seqP (dispatch env msg mods) (handle_messages env msgs))"

subsection \<open>Suspension points\<close>

text \<open>
  Tasks switch only at an \<^verbatim>\<open>await\<close>. When a task of this file is suspended, the only
  other task of this file that issues calls is the receive loop, once
  \<^verbatim>\<open>nursery.start_soon(handle_messages, client)\<close> has spawned it: it dispatches the
  messages that arrive meanwhile. An exception of the receive loop propagates through the
  nurseries to the suspended task.
\<close>

definition receive_loop_spawned :: "server \<Rightarrow> bool" where
  "receive_loop_spawned s = (Start_soon Mqtt_nursery Handle_messages \<in> set (calls s))"

definition checkpoint :: "env \<Rightarrow> nat \<Rightarrow> unit prog" where
  "checkpoint env n s =
     (if receive_loop_spawned s then handle_messages env (inbox env n) s else (Inr (), s))"

text \<open>
  \<^verbatim>\<open>await f(...)\<close> on a collaborator: the call is recorded, the caller is suspended,
  and then the call raises or returns.
\<close>

definition await_call :: "env \<Rightarrow> event \<Rightarrow> unit prog" where
  "await_call env ev s =
     (let n = length (calls s) in
      case checkpoint env n (s\<lparr>calls := calls s @ [ev]\<rparr>) of
        (Inl e, s') \<Rightarrow> (Inl e, s')
      | (Inr _, s') \<Rightarrow>
          ((case outcome env n ev of None \<Rightarrow> Inr () | Some e \<Rightarrow> Inl e), s'))"

subsection \<open>Shutdown and the signal watcher\<close>

text \<open>
  The status topic \<^verbatim>\<open>"/".join((mqtt_config["topic_prefix"], mqtt_config["status_topic"]))\<close>
  and a status payload \<^verbatim>\<open>mqtt_config[key].encode("utf8")\<close>.
\<close>

definition status_topic :: "pyval \<Rightarrow> error + str" where
  "status_topic mqtt_config =
     bindE (getitem mqtt_config ''topic_prefix'') (\<lambda>tp.
     bindE (getitem mqtt_config ''status_topic'') (\<lambda>st.
     join_slash tp st))"

definition status_payload :: "pyval \<Rightarrow> string \<Rightarrow> error + bytes" where
  "status_payload mqtt_config key = bindE (getitem mqtt_config key) encode"

text \<open>The loop \<^verbatim>\<open>for io_module in self.io_modules: await trio.to_thread.run_sync(io_module.cleanup)\<close>.\<close>

fun cleanup_modules :: "env \<Rightarrow> io_module list \<Rightarrow> unit prog" where
  "cleanup_modules env [] = return ()"
| "cleanup_modules env (m # ms) =
     seqP (await_call env (Run_sync (Cleanup m))) (cleanup_modules env ms)"

text \<open>\<^verbatim>\<open>MQTTIO.shutdown\<close>.\<close>

definition shutdown :: "env \<Rightarrow> unit prog" where
  "shutdown env =
     bindP (gets config) (\<lambda>cfg.
     bindP (lift (getitem cfg ''mqtt'')) (\<lambda>mqtt_config.
     bindP mqtt (\<lambda>_.
     bindP (lift (status_topic mqtt_config)) (\<lambda>t.
     bindP (lift (status_payload mqtt_config ''status_payload_stopped'')) (\<lambda>p.
     seqP (call env (Publish t p 1 True))
    (seqP (await_call env (Run_sync Wait_for_publish))
    (bindP mqtt (\<lambda>_.
     seqP (call env Disconnect)
    (bindP mqtt (\<lambda>_.
     seqP (await_call env Disconnect_event_wait)
    (bindP nursery (\<lambda>n.
     seqP (call env (Cancel_scope_cancel n))
    (bindP (gets io_modules) (\<lambda>mods.
     cleanup_modules env mods))))))))))))))"

text \<open>
  \<^verbatim>\<open>MQTTIO.handle_signals\<close>: the signal receiver is opened and the task reports that
  it has started; then, for each signal received, \<^verbatim>\<open>await self.shutdown()\<close>. The loop
  takes the next signal only when the shutdown for the previous one has returned. The
  argument of the loop is the finite sequence of the signal numbers received.
\<close>

definition handle_signals_started :: "env \<Rightarrow> unit prog" where
  "handle_signals_started env =
     seqP (call env Open_signal_receiver) (call env (Task_started Handle_signals))"

fun handle_signals_loop :: "env \<Rightarrow> int list \<Rightarrow> unit prog" where
  "handle_signals_loop env [] = return ()"
| "handle_signals_loop env (signum # signums) =
     seqP (shutdown env) (handle_signals_loop env signums)"

definition handle_signals :: "env \<Rightarrow> int list \<Rightarrow> unit prog" where
  "handle_signals env signums =
     seqP (handle_signals_started env) (handle_signals_loop env signums)"

subsection \<open>The connection\<close>

text \<open>
  \<^verbatim>\<open>MQTTIO._ha_discovery_announce\<close>: one announcement for every digital input, every
  digital output and every sensor input, collected first and then published in that order.
\<close>

fun collect :: "('a \<Rightarrow> error + 'b) \<Rightarrow> 'a list \<Rightarrow> error + 'b list" where
  "collect f [] = Inr []"
| "collect f (x # xs) = bindE (f x) (\<lambda>y. bindE (collect f xs) (\<lambda>ys. Inr (y # ys)))"

fun publish_all :: "env \<Rightarrow> mqtt_message_send list \<Rightarrow> unit prog" where
  "publish_all env [] = return ()"
| "publish_all env (msg # msgs) =
     seqP (call env (Publish (send_topic msg) (send_payload msg) (send_qos msg) (send_retain msg)))
          (publish_all env msgs)"

definition ha_discovery_messages :: "env \<Rightarrow> pyval \<Rightarrow> mqtt_client_options \<Rightarrow> error + mqtt_message_send list" where
  "ha_discovery_messages env mqtt_config options =
     bindE (collect (\<lambda>in_conf. hass_announce_digital_input env in_conf mqtt_config options)
              (digital_input_configs env)) (\<lambda>ins.
     bindE (collect (\<lambda>out_conf. hass_announce_digital_output env out_conf mqtt_config options)
              (digital_output_configs env)) (\<lambda>outs.
     bindE (collect (\<lambda>sens_conf. hass_announce_sensor_input env sens_conf mqtt_config options)
              (sensor_input_configs env)) (\<lambda>sens.
     Inr (ins @ outs @ sens))))"

definition ha_discovery_announce :: "env \<Rightarrow> unit prog" where
  "ha_discovery_announce env =
     bindP (gets config) (\<lambda>cfg.
     bindP (lift (getitem cfg ''mqtt'')) (\<lambda>mqtt_config.
     bindP (gets mqtt_client_options) (\<lambda>options.
     bindP (lift (ha_discovery_messages env mqtt_config options)) (\<lambda>messages.
     publish_all env messages))))"

text \<open>
  \<^verbatim>\<open>MQTTIO.run_mqtt\<close>, up to \<^verbatim>\<open>task_status.started()\<close>; after that the task only
  waits for the children of its nursery. Nothing in it is awaited. The argument of
  \<^verbatim>\<open>client.tls_set_context\<close> is evaluated first: when reading
  \<^verbatim>\<open>options.tls_options.ssl_context\<close> raises, the client is not called.
\<close>

definition run_mqtt :: "env \<Rightarrow> unit prog" where
  "run_mqtt env =
     bindP (gets mqtt_client_options) (\<lambda>options.
     seqP (modify (\<lambda>s. s\<lparr>priv_mqtt_nursery := Some Mqtt_nursery\<rparr>))
    (seqP (call env (Client_new Mqtt_nursery (client_id options) (clean_session options)))
    (seqP (modify (\<lambda>s. s\<lparr>priv_mqtt :=
             Some (AnyIOMQTTClient Mqtt_nursery (client_id options) (clean_session options))\<rparr>))
    (seqP (call env Enable_logger)
    (seqP (case tls_options options of None \<Rightarrow> return ()
           | Some tls \<Rightarrow> seqP (call env (Ssl_context tls)) (call env (Tls_set_context tls)))
    (seqP (if username options \<noteq> PNone
           then call env (Username_pw_set (username options) (password options))
           else return ())
    (seqP (call env (Connect (hostname options) (port options) (keepalive options)))
    (seqP (case will options of None \<Rightarrow> return ()
           | Some w \<Rightarrow> call env (Will_set (will_topic w) (will_payload w) (will_qos w) (will_retain w)))
    (seqP (call env (Start_soon Mqtt_nursery Handle_messages))
    (bindP (gets config) (\<lambda>cfg.
     bindP (lift (getitem cfg ''mqtt'')) (\<lambda>mqtt_config.
     bindP (lift (contains ''ha_discovery'' mqtt_config)) (\<lambda>ha.
     seqP (if ha then ha_discovery_announce env else return ())
          (call env (Task_started Run_mqtt)))))))))))))))"

subsection \<open>Startup\<close>

text \<open>
  \<^verbatim>\<open>await nursery.start(f)\<close>: the task is started in the nursery and runs up to its
  \<^verbatim>\<open>task_status.started()\<close>, then the caller resumes. The event bus is a collaborator.
\<close>

definition nursery_start :: "env \<Rightarrow> nursery \<Rightarrow> task \<Rightarrow> unit prog \<Rightarrow> unit prog" where
  "nursery_start env n t until_started =
     bindP (gets (\<lambda>s. length (calls s))) (\<lambda>k.
     seqP (call env (Nursery_start n t))
    (seqP until_started
          (checkpoint env k)))"

text \<open>
  \<^verbatim>\<open>MQTTIO.run_async\<close>, up to the end of the body of its nursery block (the running
  status is published and registered as the connect message); after that the task only
  waits for the children of the nursery. No signal is handled while it runs.
\<close>

definition run_async :: "env \<Rightarrow> unit prog" where
  "run_async env =
     seqP (modify (\<lambda>s. s\<lparr>priv_trio_token := Some (current_trio_token env)\<rparr>))
    (seqP (modify (\<lambda>s. s\<lparr>priv_main_nursery := Some Main_nursery\<rparr>))
    (seqP (nursery_start env Main_nursery Handle_signals (handle_signals_started env))
    (seqP (await_call env (Nursery_start Main_nursery Event_bus_run))
    (seqP (nursery_start env Main_nursery Run_mqtt (run_mqtt env))
    (seqP (await_call env (Module_init GPIO))
    (seqP (await_call env (Module_init SensorIO))
    (seqP (await_call env (Module_init StreamIO))
    (bindP (gets config) (\<lambda>cfg.
     bindP (lift (getitem cfg ''mqtt'')) (\<lambda>mqtt_config.
     bindP (lift (status_topic mqtt_config)) (\<lambda>t.
     bindP (lift (status_payload mqtt_config ''status_payload_running'')) (\<lambda>p.
     bindP mqtt (\<lambda>_.
     seqP (call env (Publish t p 1 True))
    (bindP mqtt (\<lambda>_.
     call env (Set_connect_message t p 1 True))))))))))))))))"

section \<open>Vocabulary of the statements\<close>

text \<open>
  The definitions of this section are not code of the server: they name what the theorems
  speak about.
\<close>

subsection \<open>The calls of a run\<close>

text \<open>
  A dispatch is a \<^verbatim>\<open>start_soon\<close> of a module's message handler, which only the
  receive loop issues. The own calls of a function are the calls of its run without the
  dispatches that the receive loop issued while the function was suspended. The cleanup
  calls are the \<^verbatim>\<open>run_sync(io_module.cleanup)\<close> among the calls. \<open>fan_out\<close> is the
  sequence of dispatches for a sequence of messages: message by message, and module by
  module for each message.
\<close>

fun is_dispatch :: "event \<Rightarrow> bool" where
  "is_dispatch (Start_soon n (Handle_mqtt_msg m t p)) = True"
| "is_dispatch _ = False"

definition own_calls :: "event list \<Rightarrow> event list" where
  "own_calls evs = filter (\<lambda>ev. \<not> is_dispatch ev) evs"

fun is_cleanup :: "event \<Rightarrow> bool" where
  "is_cleanup (Run_sync (Cleanup m)) = True"
| "is_cleanup _ = False"

definition cleanup_calls :: "event list \<Rightarrow> event list" where
  "cleanup_calls evs = filter is_cleanup evs"

definition fan_out :: "nursery \<Rightarrow> io_module list \<Rightarrow> mqtt_message list \<Rightarrow> event list" where
  "fan_out n mods msgs =
     concat (map (\<lambda>msg. map (\<lambda>m. Start_soon n (Handle_mqtt_msg m (msg_topic msg) (msg_payload msg))) mods) msgs)"

text \<open>
  The calls of \<^verbatim>\<open>run_mqtt\<close> and of the whole startup when every call returns, for the
  options of the server and the discovery announcements to publish, and the fields that
  \<^verbatim>\<open>run_mqtt\<close> and \<^verbatim>\<open>run_async\<close> have set by then.
\<close>

definition publish_event :: "mqtt_message_send \<Rightarrow> event" where
  "publish_event msg = Publish (send_topic msg) (send_payload msg) (send_qos msg) (send_retain msg)"

definition run_mqtt_calls :: "mqtt_client_options \<Rightarrow> mqtt_message_send list \<Rightarrow> event list" where
  "run_mqtt_calls options announcements =
     Client_new Mqtt_nursery (client_id options) (clean_session options) #
     Enable_logger #
     (case tls_options options of None \<Rightarrow> []
      | Some tls \<Rightarrow> [Ssl_context tls, Tls_set_context tls]) @
     (if username options \<noteq> PNone then [Username_pw_set (username options) (password options)] else []) @
     Connect (hostname options) (port options) (keepalive options) #
     (case will options of None \<Rightarrow> []
      | Some w \<Rightarrow> [Will_set (will_topic w) (will_payload w) (will_qos w) (will_retain w)]) @
     Start_soon Mqtt_nursery Handle_messages #
     map publish_event announcements @
     [Task_started Run_mqtt]"

definition startup_calls :: "mqtt_client_options \<Rightarrow> mqtt_message_send list \<Rightarrow> str \<Rightarrow> bytes \<Rightarrow> event list" where
  "startup_calls options announcements t p =
     Nursery_start Main_nursery Handle_signals #
     Open_signal_receiver #
     Task_started Handle_signals #
     Nursery_start Main_nursery Event_bus_run #
     Nursery_start Main_nursery Run_mqtt #
     run_mqtt_calls options announcements @
     [Module_init GPIO, Module_init SensorIO, Module_init StreamIO,
      Publish t p 1 True, Set_connect_message t p 1 True]"

definition connected :: "server \<Rightarrow> server" where
  "connected s =
     s\<lparr>priv_mqtt_nursery := Some Mqtt_nursery,
       priv_mqtt := Some (AnyIOMQTTClient Mqtt_nursery (client_id (mqtt_client_options s))
                            (clean_session (mqtt_client_options s)))\<rparr>"

definition started :: "env \<Rightarrow> server \<Rightarrow> server" where
  "started env s =
     connected (s\<lparr>priv_trio_token := Some (current_trio_token env),
                  priv_main_nursery := Some Main_nursery\<rparr>)"

subsection \<open>Assumptions on the collaborators\<close>

text \<open>
  \<open>no_raise\<close>: no call on a collaborator raises. \<open>dispatch_ok\<close>: no \<^verbatim>\<open>start_soon\<close>
  of a message handler raises.
\<close>

definition no_raise :: "env \<Rightarrow> bool" where
  "no_raise env = (\<forall>k ev. outcome env k ev = None)"

definition dispatch_ok :: "env \<Rightarrow> bool" where
  "dispatch_ok env = (\<forall>k n m t p. outcome env k (Start_soon n (Handle_mqtt_msg m t p)) = None)"

subsection \<open>Runs\<close>

text \<open>
  \<open>steps s0 s1 p r L\<close>: started in \<open>s0\<close>, after any calls issued before, \<open>p\<close> ends with
  the result \<open>r\<close> in \<open>s1\<close> with new calls added, and the own calls among the new ones are
  \<open>L\<close>. \<open>steps_upto s p L\<close>: \<open>p\<close> changes nothing but the calls, and its own calls are an
  initial part of \<open>L\<close>, whatever its result. \<open>steps_from s p ev L\<close>: the same, and the
  first own call, \<open>ev\<close>, is issued in any case. \<open>keeps_cleanups p\<close>: \<open>p\<close> issues no
  cleanup call.
\<close>

definition steps :: "server \<Rightarrow> server \<Rightarrow> 'a prog \<Rightarrow> error + 'a \<Rightarrow> event list \<Rightarrow> bool" where
  "steps s0 s1 p r L =
     (\<forall>c. \<exists>new. p (s0\<lparr>calls := c\<rparr>) = (r, s1\<lparr>calls := c @ new\<rparr>) \<and> own_calls new = L)"

definition steps_upto :: "server \<Rightarrow> 'a prog \<Rightarrow> event list \<Rightarrow> bool" where
  "steps_upto s p L =
     (\<forall>c. \<exists>r new k. p (s\<lparr>calls := c\<rparr>) = (r, s\<lparr>calls := c @ new\<rparr>) \<and> own_calls new = take k L)"


definition keeps_cleanups :: "'a prog \<Rightarrow> bool" where
  "keeps_cleanups p = (\<forall>s. cleanup_calls (calls (snd (p s))) = cleanup_calls (calls s))"

subsection \<open>The scenario\<close>

text \<open>
  The configuration of the specification's scenario (topic prefix \<^verbatim>\<open>"home"\<close>, status
  topic \<^verbatim>\<open>"status"\<close>, payloads \<^verbatim>\<open>"run"\<close>, \<^verbatim>\<open>"stop"\<close>, \<^verbatim>\<open>"dead"\<close>, empty client
  id), completed with the connection parameters that the constructor reads. \<open>home_digest\<close>
  stands for SHA-1 at the one input the scenario gives it: the hex digest of
  \<^verbatim>\<open>b"home"\<close>. In \<open>quiet_env\<close> no call raises, no message arrives and the modules have
  no entities to announce. \<open>fresh_server\<close> is the server as the constructor leaves it and
  \<open>running_server\<close> the server after startup.
\<close>

definition scenario_mqtt :: pyval where
  "scenario_mqtt = PDict [
     (''host'', PStr (lit ''localhost'')), (''port'', PInt 1883),
     (''user'', PNone), (''password'', PNone),
     (''client_id'', PStr []), (''keepalive'', PInt 10), (''clean_session'', PBool False),
     (''topic_prefix'', PStr (lit ''home'')), (''status_topic'', PStr (lit ''status'')),
     (''status_payload_running'', PStr (lit ''run'')),
     (''status_payload_stopped'', PStr (lit ''stop'')),
     (''status_payload_dead'', PStr (lit ''dead''))]"

definition scenario_config :: pyval where
  "scenario_config = PDict [(''mqtt'', scenario_mqtt)]"

definition home_digest :: "bytes \<Rightarrow> str" where
  "home_digest b = lit ''e83249bd3ba79932e16fb1fb5100dafade9954c2''"

definition quiet_env :: env where
  "quiet_env =
     \<lparr>outcome = (\<lambda>k ev. None), inbox = (\<lambda>k. []), current_trio_token = Trio_token 0,
      sha1_hexdigest = home_digest,
      digital_input_configs = [], digital_output_configs = [], sensor_input_configs = [],
      hass_announce_digital_input = (\<lambda>conf mqtt_conf options. Inl (Raised 0)),
      hass_announce_digital_output = (\<lambda>conf mqtt_conf options. Inl (Raised 0)),
      hass_announce_sensor_input = (\<lambda>conf mqtt_conf options. Inl (Raised 0))\<rparr>"

definition scenario_options :: mqtt_client_options where
  "scenario_options =
     \<lparr>hostname = PStr (lit ''localhost''), port = PInt 1883, username = PNone, password = PNone,
      client_id = PStr (lit ''mqtt-io-e83249bd3ba79932e16fb1fb5100dafade9954c2''),
      keepalive = PInt 10, clean_session = PBool False, tls_options = None,
      will = Some \<lparr>will_topic = lit ''home/status'', will_payload = [100, 101, 97, 100],
                   will_qos = 1, will_retain = True\<rparr>\<rparr>"

definition fresh_server :: server where
  "fresh_server =
     \<lparr>config = scenario_config, mqtt_client_options = scenario_options, priv_trio_token = None,
      priv_main_nursery = None, priv_mqtt_nursery = None, priv_mqtt = None,
      io_modules = [GPIO, SensorIO, StreamIO], calls = []\<rparr>"

definition running_server :: server where
  "running_server = snd (run_async quiet_env fresh_server)"

definition scenario_client :: anyio_mqtt_client where
  "scenario_client = AnyIOMQTTClient Mqtt_nursery (client_id scenario_options) (PBool False)"

definition scenario_startup :: "event list" where
  "scenario_startup =
     [Nursery_start Main_nursery Handle_signals, Open_signal_receiver,
      Task_started Handle_signals, Nursery_start Main_nursery Event_bus_run,
      Nursery_start Main_nursery Run_mqtt,
      Client_new Mqtt_nursery (client_id scenario_options) (PBool False),
      Enable_logger,
      Connect (PStr (lit ''localhost'')) (PInt 1883) (PInt 10),
      Will_set (lit ''home/status'') [100, 101, 97, 100] 1 True,
      Start_soon Mqtt_nursery Handle_messages, Task_started Run_mqtt,
      Module_init GPIO, Module_init SensorIO, Module_init StreamIO,
      Publish (lit ''home/status'') [114, 117, 110] 1 True,
      Set_connect_message (lit ''home/status'') [114, 117, 110] 1 True]"

text \<open>
  What trio does to a shutdown that the signal watcher runs. \<^verbatim>\<open>shutdown\<close> is called
  from \<^verbatim>\<open>handle_signals\<close> (line 73), a task that \<^verbatim>\<open>nursery.start\<close> has put into
  the main nursery (line 97). Once \<^verbatim>\<open>self.nursery.cancel_scope.cancel()\<close> (line 86) has
  cancelled that nursery's scope, the next checkpoint of the task raises
  \<^verbatim>\<open>Cancelled\<close>; that checkpoint is the entry of
  \<^verbatim>\<open>trio.to_thread.run_sync(io_module.cleanup)\<close> (line 89), before the cleanup is handed
  to a thread. A cleanup is passed to \<^verbatim>\<open>run_sync\<close> nowhere else, so in \<open>signal_env\<close>
  every \<^verbatim>\<open>run_sync\<close> of a cleanup raises \<^verbatim>\<open>Cancelled\<close> and every other call returns.
  \<open>signalled_server\<close> is the server after the signal watcher has handled one signal.
\<close>

definition signal_env :: env where
  "signal_env =
     quiet_env\<lparr>outcome := (\<lambda>k ev. if is_cleanup ev then Some Cancelled else None)\<rparr>"


text \<open>
  Three variations: \<^verbatim>\<open>gpio.init()\<close> raises; the cleanup of the GPIO module raises; a
  message arrives while \<^verbatim>\<open>gpio.init()\<close> is awaited (in the scenario that is call number
  11, counted from 0).
\<close>

definition failing_init_env :: env where
  "failing_init_env =
     quiet_env\<lparr>outcome := (\<lambda>k ev. if ev = Module_init GPIO then Some (Raised 1) else None)\<rparr>"

definition failing_cleanup_env :: env where
  "failing_cleanup_env =
     quiet_env\<lparr>outcome := (\<lambda>k ev. if ev = Run_sync (Cleanup GPIO) then Some (Raised 1) else None)\<rparr>"

definition early_message :: mqtt_message where
  "early_message = \<lparr>msg_topic = lit ''home/output/pin0/set'', msg_payload = [79, 78]\<rparr>"

definition early_message_env :: env where
  "early_message_env = quiet_env\<lparr>inbox := (\<lambda>k. if k = 11 then [early_message] else [])\<rparr>"

section \<open>Lemmas\<close>

subsection \<open>The receive loop, and how runs compose\<close>

lemma no_raise_dispatch_ok: "no_raise env \<Longrightarrow> dispatch_ok env"
  by (simp add: no_raise_def dispatch_ok_def)

lemma own_calls_append [simp]: "own_calls (xs @ ys) = own_calls xs @ own_calls ys"
  by (simp add: own_calls_def)

lemma own_calls_Nil [simp]: "own_calls [] = []"
  by (simp add: own_calls_def)

lemma own_calls_Cons [simp]:
  "own_calls (ev # evs) = (if is_dispatch ev then own_calls evs else ev # own_calls evs)"
  by (simp add: own_calls_def)

lemma own_calls_fan_out [simp]: "own_calls (fan_out n mods msgs) = []"
  by (induction msgs) (simp_all add: fan_out_def own_calls_def)

lemma dispatch_eq:
  assumes "dispatch_ok env" and "priv_main_nursery s = Some n"
  shows "dispatch env msg ms s =
           (Inr (), s\<lparr>calls := calls s @
              map (\<lambda>m. Start_soon n (Handle_mqtt_msg m (msg_topic msg) (msg_payload msg))) ms\<rparr>)"
  using assms
proof (induction ms arbitrary: s)
  case Nil
  then show ?case by (simp add: return_def)
next
  case (Cons m ms)
  let ?ev = "Start_soon n (Handle_mqtt_msg m (msg_topic msg) (msg_payload msg))"
  have "outcome env (length (calls s)) ?ev = None"
    using Cons.prems(1) by (simp add: dispatch_ok_def)
  then show ?case
    using Cons.prems Cons.IH [of "s\<lparr>calls := calls s @ [?ev]\<rparr>"]
    by (simp add: bindP_def seqP_def nursery_def call_def)
qed

lemma handle_messages_eq:
  assumes "dispatch_ok env" and "priv_main_nursery s = Some n"
  shows "handle_messages env msgs s =
           (Inr (), s\<lparr>calls := calls s @ fan_out n (io_modules s) msgs\<rparr>)"
  using assms
proof (induction msgs arbitrary: s)
  case Nil
  then show ?case by (simp add: return_def fan_out_def)
next
  case (Cons msg msgs)
  then show ?case
    by (simp add: bindP_def seqP_def gets_def dispatch_eq fan_out_def)
qed

lemma steps_return: "steps s s (return x) (Inr x) []"
  by (auto simp: steps_def return_def intro!: exI [of _ "[]"])

lemma steps_checkpoint:
  assumes "dispatch_ok env" and "priv_main_nursery s = Some n"
  shows "steps s s (checkpoint env k) (Inr ()) []"
  unfolding steps_def
proof
  fix c
  show "\<exists>new. checkpoint env k (s\<lparr>calls := c\<rparr>) = (Inr (), s\<lparr>calls := c @ new\<rparr>) \<and> own_calls new = []"
  proof (cases "receive_loop_spawned (s\<lparr>calls := c\<rparr>)")
    case True
    then have "checkpoint env k (s\<lparr>calls := c\<rparr>) =
        (Inr (), s\<lparr>calls := c @ fan_out n (io_modules s) (inbox env k)\<rparr>)"
      using handle_messages_eq [OF assms(1), of "s\<lparr>calls := c\<rparr>" n] assms(2)
      by (simp add: checkpoint_def)
    then show ?thesis by (intro exI [of _ "fan_out n (io_modules s) (inbox env k)"]) simp
  next
    case False
    then show ?thesis by (intro exI [of _ "[]"]) (simp add: checkpoint_def)
  qed
qed

lemma steps_seq:
  assumes "steps s0 s1 p (Inr ()) L1" and "steps s1 s2 q r L2"
  shows "steps s0 s2 (seqP p q) r (L1 @ L2)"
  unfolding steps_def
proof
  fix c
  from assms(1) obtain n1 where p: "p (s0\<lparr>calls := c\<rparr>) = (Inr (), s1\<lparr>calls := c @ n1\<rparr>)"
    and o1: "own_calls n1 = L1" unfolding steps_def by blast
  from assms(2) obtain n2 where q: "q (s1\<lparr>calls := c @ n1\<rparr>) = (r, s2\<lparr>calls := (c @ n1) @ n2\<rparr>)"
    and o2: "own_calls n2 = L2" unfolding steps_def by blast
  show "\<exists>new. seqP p q (s0\<lparr>calls := c\<rparr>) = (r, s2\<lparr>calls := c @ new\<rparr>) \<and> own_calls new = L1 @ L2"
    using p q o1 o2 by (intro exI [of _ "n1 @ n2"]) (simp add: seqP_def bindP_def)
qed

lemma steps_seq_raise:
  assumes "steps s0 s1 p (Inl e) L"
  shows "steps s0 s1 (seqP p q) (Inl e) L"
  unfolding steps_def
proof
  fix c
  from assms obtain n1 where p: "p (s0\<lparr>calls := c\<rparr>) = (Inl e, s1\<lparr>calls := c @ n1\<rparr>)"
    and o1: "own_calls n1 = L" unfolding steps_def by blast
  show "\<exists>new. seqP p q (s0\<lparr>calls := c\<rparr>) = (Inl e, s1\<lparr>calls := c @ new\<rparr>) \<and> own_calls new = L"
    using p o1 by (intro exI [of _ n1]) (simp add: seqP_def bindP_def)
qed

lemma steps_bind:
  assumes "steps s0 s1 p (Inr x) L1" and "steps s1 s2 (f x) r L2"
  shows "steps s0 s2 (bindP p f) r (L1 @ L2)"
  unfolding steps_def
proof
  fix c
  from assms(1) obtain n1 where p: "p (s0\<lparr>calls := c\<rparr>) = (Inr x, s1\<lparr>calls := c @ n1\<rparr>)"
    and o1: "own_calls n1 = L1" unfolding steps_def by blast
  from assms(2) obtain n2 where q: "f x (s1\<lparr>calls := c @ n1\<rparr>) = (r, s2\<lparr>calls := (c @ n1) @ n2\<rparr>)"
    and o2: "own_calls n2 = L2" unfolding steps_def by blast
  show "\<exists>new. bindP p f (s0\<lparr>calls := c\<rparr>) = (r, s2\<lparr>calls := c @ new\<rparr>) \<and> own_calls new = L1 @ L2"
    using p q o1 o2 by (intro exI [of _ "n1 @ n2"]) (simp add: bindP_def)
qed

lemma steps_gets:
  assumes "\<And>v. steps s0 s1 (f v) r L"
  shows "steps s0 s1 (bindP (gets g) f) r L"
  using assms unfolding steps_def by (simp add: bindP_def gets_def)

lemma steps_lift:
  assumes "steps s0 s1 (f v) r L"
  shows "steps s0 s1 (bindP (lift (Inr v)) f) r L"
  using assms unfolding steps_def by (simp add: bindP_def lift_def)

lemma steps_mqtt:
  assumes "priv_mqtt s0 = Some c" and "steps s0 s1 (f c) r L"
  shows "steps s0 s1 (bindP mqtt f) r L"
  using assms unfolding steps_def by (simp add: bindP_def mqtt_def)

lemma steps_nursery:
  assumes "priv_main_nursery s0 = Some n" and "steps s0 s1 (f n) r L"
  shows "steps s0 s1 (bindP nursery f) r L"
  using assms unfolding steps_def by (simp add: bindP_def nursery_def)

lemma steps_modify:
  assumes "\<And>c. g (s0\<lparr>calls := c\<rparr>) = s1\<lparr>calls := c\<rparr>" and "steps s1 s2 q r L"
  shows "steps s0 s2 (seqP (modify g) q) r L"
  using assms unfolding steps_def by (simp add: seqP_def bindP_def modify_def)

lemma steps_call:
  assumes "\<And>k. outcome env k ev = None" and "\<not> is_dispatch ev"
  shows "steps s s (call env ev) (Inr ()) [ev]"
  unfolding steps_def using assms by (auto simp: call_def intro!: exI [of _ "[ev]"])

lemma steps_call_raise:
  assumes "\<And>k. outcome env k ev = Some e" and "\<not> is_dispatch ev"
  shows "steps s s (call env ev) (Inl e) [ev]"
  unfolding steps_def using assms by (auto simp: call_def intro!: exI [of _ "[ev]"])

lemma steps_await:
  assumes "dispatch_ok env" and "priv_main_nursery s = Some n"
    and "\<And>k. outcome env k ev = oc" and "\<not> is_dispatch ev"
  shows "steps s s (await_call env ev) (case oc of None \<Rightarrow> Inr () | Some e \<Rightarrow> Inl e) [ev]"
  unfolding steps_def
proof
  fix c
  from steps_checkpoint [OF assms(1,2), of "length c"]
  obtain new where cp: "checkpoint env (length c) (s\<lparr>calls := c @ [ev]\<rparr>) = (Inr (), s\<lparr>calls := (c @ [ev]) @ new\<rparr>)"
    and on: "own_calls new = []" unfolding steps_def by blast
  show "\<exists>new. await_call env ev (s\<lparr>calls := c\<rparr>) =
          (case oc of None \<Rightarrow> Inr () | Some e \<Rightarrow> Inl e, s\<lparr>calls := c @ new\<rparr>) \<and> own_calls new = [ev]"
    using cp on assms(3,4) by (intro exI [of _ "ev # new"]) (simp add: await_call_def)
qed

lemma steps_run:
  assumes "steps s0 s1 p r L"
  shows "\<exists>new. p s0 = (r, s1\<lparr>calls := calls s0 @ new\<rparr>) \<and> own_calls new = L"
  using assms [unfolded steps_def, rule_format, of "calls s0"] by simp

lemma steps_gets_const:
  assumes "\<And>c. g (s0\<lparr>calls := c\<rparr>) = v" and "steps s0 s1 (f v) r L"
  shows "steps s0 s1 (bindP (gets g) f) r L"
  using assms unfolding steps_def by (simp add: bindP_def gets_def)

lemma steps_call_seq:
  assumes "\<And>k. outcome env k ev = None" and "\<not> is_dispatch ev" and "steps s s1 q r L"
  shows "steps s s1 (seqP (call env ev) q) r (ev # L)"
  using steps_seq [OF steps_call [OF assms(1,2)] assms(3)] by simp

lemma steps_await_seq:
  assumes "dispatch_ok env" and "priv_main_nursery s = Some n"
    and "\<And>k. outcome env k ev = None" and "\<not> is_dispatch ev" and "steps s s1 q r L"
  shows "steps s s1 (seqP (await_call env ev) q) r (ev # L)"
  using steps_seq [OF steps_await [OF assms(1,2,3,4), simplified] assms(5)] by simp

lemma steps_await_raise:
  assumes "dispatch_ok env" and "priv_main_nursery s = Some n"
    and "\<And>k. outcome env k ev = Some e" and "\<not> is_dispatch ev"
  shows "steps s s (seqP (await_call env ev) q) (Inl e) [ev]"
proof -
  have "steps s s (await_call env ev) (Inl e) [ev]"
    using steps_await [OF assms(1,2,3,4)] by simp
  then show ?thesis by (rule steps_seq_raise)
qed

lemma cleanup_modules_steps:
  assumes "dispatch_ok env" and "priv_main_nursery s = Some n"
    and "\<And>k m. outcome env k (Run_sync (Cleanup m)) = None"
  shows "steps s s (cleanup_modules env ms) (Inr ()) (map (\<lambda>m. Run_sync (Cleanup m)) ms)"
proof (induction ms)
  case Nil
  show ?case by (simp add: steps_return)
next
  case (Cons m ms)
  show ?case
    using steps_await_seq [OF assms(1,2) assms(3) _ Cons.IH, of m] by simp
qed

lemma shutdown_steps:
  assumes "no_raise env"
    and "getitem (config s) ''mqtt'' = Inr mc"
    and "status_topic mc = Inr t"
    and "status_payload mc ''status_payload_stopped'' = Inr p"
    and "priv_mqtt s = Some c"
    and "priv_main_nursery s = Some n"
  shows "steps s s (shutdown env) (Inr ())
           (Publish t p 1 True # Run_sync Wait_for_publish # Disconnect # Disconnect_event_wait #
            Cancel_scope_cancel n # map (\<lambda>m. Run_sync (Cleanup m)) (io_modules s))"
proof -
  have ok: "dispatch_ok env" and out: "\<And>k ev. outcome env k ev = None"
    using assms(1) by (simp_all add: no_raise_def dispatch_ok_def)
  show ?thesis
    unfolding shutdown_def
    apply (rule steps_gets_const [where v = "config s"], simp)
    apply (simp only: assms(2))
    apply (rule steps_lift)
    apply (rule steps_mqtt [OF assms(5)])
    apply (simp only: assms(3))
    apply (rule steps_lift)
    apply (simp only: assms(4))
    apply (rule steps_lift)
    apply (rule steps_call_seq [OF out], simp)
    apply (rule steps_await_seq [OF ok assms(6) out], simp)
    apply (rule steps_mqtt [OF assms(5)])
    apply (rule steps_call_seq [OF out], simp)
    apply (rule steps_mqtt [OF assms(5)])
    apply (rule steps_await_seq [OF ok assms(6) out], simp)
    apply (rule steps_nursery [OF assms(6)])
    apply (rule steps_call_seq [OF out], simp)
    apply (rule steps_gets_const [where v = "io_modules s"], simp)
    apply (rule cleanup_modules_steps [OF ok assms(6) out])
    done
qed

lemma steps_gets_any:
  assumes "\<And>v. steps s0 s1 (f v) r L"
  shows "steps s0 s1 (bindP (gets g) f) r L"
  using assms unfolding steps_def by (simp add: bindP_def gets_def)

lemma publish_all_steps:
  assumes "\<And>k ev. outcome env k ev = None"
  shows "steps s s (publish_all env msgs) (Inr ()) (map publish_event msgs)"
proof (induction msgs)
  case Nil
  show ?case by (simp add: steps_return)
next
  case (Cons msg msgs)
  show ?case
    using steps_call_seq [OF assms _ Cons.IH, of "publish_event msg"]
    by (simp add: publish_event_def)
qed

lemma ha_discovery_announce_steps:
  assumes "\<And>k ev. outcome env k ev = None"
    and "getitem (config s) ''mqtt'' = Inr mc"
    and "ha_discovery_messages env mc (mqtt_client_options s) = Inr msgs"
  shows "steps s s (ha_discovery_announce env) (Inr ()) (map publish_event msgs)"
  unfolding ha_discovery_announce_def
  apply (rule steps_gets_const [where v = "config s"], simp)
  apply (simp only: assms(2))
  apply (rule steps_lift)
  apply (rule steps_gets_const [where v = "mqtt_client_options s"], simp)
  apply (simp only: assms(3))
  apply (rule steps_lift)
  apply (rule publish_all_steps [OF assms(1)])
  done

lemma run_mqtt_steps:
  assumes out: "\<And>k ev. outcome env k ev = None"
    and mc: "getitem (config s) ''mqtt'' = Inr mc"
    and ha: "contains ''ha_discovery'' mc = Inr ha"
    and msgs: "if ha then ha_discovery_messages env mc (mqtt_client_options s) = Inr msgs
               else msgs = []"
  shows "steps s (connected s) (run_mqtt env) (Inr ()) (run_mqtt_calls (mqtt_client_options s) msgs)"
proof -
  let ?o = "mqtt_client_options s"
  let ?s1 = "s\<lparr>priv_mqtt_nursery := Some Mqtt_nursery\<rparr>"
  let ?s2 = "connected s"
  have tls: "steps ?s2 ?s2 (case tls_options ?o of None \<Rightarrow> return ()
               | Some tls \<Rightarrow> seqP (call env (Ssl_context tls)) (call env (Tls_set_context tls)))
             (Inr ())
             (case tls_options ?o of None \<Rightarrow> []
              | Some tls \<Rightarrow> [Ssl_context tls, Tls_set_context tls])"
    by (cases "tls_options ?o") (simp_all add: steps_return steps_call steps_call_seq out)
  have usr: "steps ?s2 ?s2 (if username ?o \<noteq> PNone
               then call env (Username_pw_set (username ?o) (password ?o)) else return ()) (Inr ())
             (if username ?o \<noteq> PNone then [Username_pw_set (username ?o) (password ?o)] else [])"
    by (simp add: steps_return steps_call out)
  have wil: "steps ?s2 ?s2 (case will ?o of None \<Rightarrow> return ()
               | Some w \<Rightarrow> call env (Will_set (will_topic w) (will_payload w) (will_qos w) (will_retain w)))
             (Inr ())
             (case will ?o of None \<Rightarrow> []
              | Some w \<Rightarrow> [Will_set (will_topic w) (will_payload w) (will_qos w) (will_retain w)])"
    by (cases "will ?o") (simp_all add: steps_return steps_call out)
  have c2: "config ?s2 = config s" and o2: "mqtt_client_options ?s2 = ?o"
    by (simp_all add: connected_def)
  have ann: "steps ?s2 ?s2 (if ha then ha_discovery_announce env else return ()) (Inr ())
               (map publish_event msgs)"
  proof (cases ha)
    case True
    then show ?thesis
      using ha_discovery_announce_steps [OF out, of ?s2 mc msgs] msgs mc c2 o2 by simp
  next
    case False
    then show ?thesis using msgs by (simp add: steps_return)
  qed
  show ?thesis
    unfolding run_mqtt_def run_mqtt_calls_def
    apply (rule steps_gets_const [where v = ?o], simp)
    apply (rule steps_modify [where ?s1.0 = ?s1], simp)
    apply (rule steps_call_seq [OF out], simp)
    apply (rule steps_modify [where ?s1.0 = ?s2], simp add: connected_def)
    apply (rule steps_call_seq [OF out], simp)
    apply (rule steps_seq [OF tls])
    apply (rule steps_seq [OF usr])
    apply (rule steps_call_seq [OF out], simp)
    apply (rule steps_seq [OF wil])
    apply (rule steps_call_seq [OF out], simp)
    apply (rule steps_gets_const [where v = "config s"], simp add: connected_def)
    apply (simp only: mc)
    apply (rule steps_lift)
    apply (simp only: ha)
    apply (rule steps_lift)
    apply (rule steps_seq [OF ann])
    apply (rule steps_call [OF out], simp)
    done
qed

lemma nursery_start_steps:
  assumes "\<And>k ev. outcome env k ev = None"
    and "priv_main_nursery s1 = Some n'"
    and "steps s0 s1 until_started (Inr ()) L"
  shows "steps s0 s1 (nursery_start env n t until_started) (Inr ()) (Nursery_start n t # L)"
proof -
  have ok: "dispatch_ok env" using assms(1) by (simp add: dispatch_ok_def)
  have "steps s0 s1 (seqP until_started (checkpoint env k)) (Inr ()) L" for k
    using steps_seq [OF assms(3) steps_checkpoint [OF ok assms(2)], of k] by simp
  then show ?thesis
    unfolding nursery_start_def
    apply -
    apply (rule steps_gets_any)
    apply (rule steps_call_seq [OF assms(1)], simp)
    apply assumption
    done
qed

lemma run_async_steps:
  assumes out: "\<And>k ev. outcome env k ev = None"
    and mc: "getitem (config s) ''mqtt'' = Inr mc"
    and ha: "contains ''ha_discovery'' mc = Inr ha"
    and msgs: "if ha then ha_discovery_messages env mc (mqtt_client_options s) = Inr msgs
               else msgs = []"
    and t: "status_topic mc = Inr t"
    and p: "status_payload mc ''status_payload_running'' = Inr p"
  shows "steps s (started env s) (run_async env) (Inr ())
           (startup_calls (mqtt_client_options s) msgs t p)"
proof -
  let ?s1 = "s\<lparr>priv_trio_token := Some (current_trio_token env)\<rparr>"
  let ?s2 = "s\<lparr>priv_trio_token := Some (current_trio_token env), priv_main_nursery := Some Main_nursery\<rparr>"
  let ?s3 = "started env s"
  have ok: "dispatch_ok env" using out by (simp add: dispatch_ok_def)
  have n2: "priv_main_nursery ?s2 = Some Main_nursery" by simp
  have n3: "priv_main_nursery ?s3 = Some Main_nursery" by (simp add: started_def connected_def)
  have m3: "priv_mqtt ?s3 = Some (AnyIOMQTTClient Mqtt_nursery (client_id (mqtt_client_options s))
                            (clean_session (mqtt_client_options s)))"
    by (simp add: started_def connected_def)
  have sig: "steps ?s2 ?s2 (handle_signals_started env) (Inr ())
               [Open_signal_receiver, Task_started Handle_signals]"
    unfolding handle_signals_started_def
    by (rule steps_call_seq [OF out], simp, rule steps_call [OF out], simp)
  have rm: "steps ?s2 ?s3 (run_mqtt env) (Inr ()) (run_mqtt_calls (mqtt_client_options s) msgs)"
    using run_mqtt_steps [OF out, of ?s2 mc ha msgs] mc ha msgs by (simp add: started_def)
  show ?thesis
    unfolding run_async_def startup_calls_def
    apply (rule steps_modify [where ?s1.0 = ?s1], simp)
    apply (rule steps_modify [where ?s1.0 = ?s2], simp)
    apply (rule steps_seq [OF nursery_start_steps [OF out n2 sig], simplified])
    apply (rule steps_await_seq [OF ok n2 out], simp)
    apply (rule steps_seq [OF nursery_start_steps [OF out n3 rm], simplified])
    apply (rule steps_await_seq [OF ok n3 out], simp)
    apply (rule steps_await_seq [OF ok n3 out], simp)
    apply (rule steps_await_seq [OF ok n3 out], simp)
    apply (rule steps_gets_const [where v = "config s"], simp add: started_def connected_def)
    apply (simp only: mc)
    apply (rule steps_lift)
    apply (simp only: t)
    apply (rule steps_lift)
    apply (simp only: p)
    apply (rule steps_lift)
    apply (rule steps_mqtt [OF m3])
    apply (rule steps_call_seq [OF out], simp)
    apply (rule steps_mqtt [OF m3])
    apply (rule steps_call [OF out], simp)
    done
qed

subsection \<open>Functions that issue no cleanup\<close>

lemma keeps_return: "keeps_cleanups (return x)"
  by (simp add: keeps_cleanups_def return_def)

lemma keeps_lift: "keeps_cleanups (lift r)"
  by (simp add: keeps_cleanups_def lift_def)

lemma keeps_gets: "keeps_cleanups (gets f)"
  by (simp add: keeps_cleanups_def gets_def)

lemma keeps_nursery: "keeps_cleanups nursery"
  by (simp add: keeps_cleanups_def nursery_def split: option.split)

lemma keeps_mqtt: "keeps_cleanups mqtt"
  by (simp add: keeps_cleanups_def mqtt_def split: option.split)

lemma keeps_modify: "(\<And>s. calls (f s) = calls s) \<Longrightarrow> keeps_cleanups (modify f)"
  by (simp add: keeps_cleanups_def modify_def)

lemma keeps_call: "\<not> is_cleanup ev \<Longrightarrow> keeps_cleanups (call env ev)"
  by (simp add: keeps_cleanups_def call_def cleanup_calls_def)

lemma keeps_bind:
  assumes "keeps_cleanups m" and "\<And>x. keeps_cleanups (f x)"
  shows "keeps_cleanups (bindP m f)"
  unfolding keeps_cleanups_def
proof
  fix s
  obtain r s' where ms: "m s = (r, s')" by (cases "m s")
  have 1: "cleanup_calls (calls s') = cleanup_calls (calls s)"
    using assms(1) ms unfolding keeps_cleanups_def by (metis snd_conv)
  show "cleanup_calls (calls (snd (bindP m f s))) = cleanup_calls (calls s)"
  proof (cases r)
    case (Inl e)
    then show ?thesis using ms 1 by (simp add: bindP_def)
  next
    case (Inr x)
    have "cleanup_calls (calls (snd (f x s'))) = cleanup_calls (calls s')"
      using assms(2) [of x] unfolding keeps_cleanups_def by blast
    then show ?thesis using ms 1 Inr by (simp add: bindP_def)
  qed
qed

lemma keeps_seq:
  assumes "keeps_cleanups m" and "keeps_cleanups k"
  shows "keeps_cleanups (seqP m k)"
  unfolding seqP_def using assms by (intro keeps_bind)

lemma keeps_dispatch: "keeps_cleanups (dispatch env msg ms)"
  by (induction ms) (auto intro!: keeps_return keeps_bind keeps_seq keeps_nursery keeps_call)

lemma keeps_handle_messages: "keeps_cleanups (handle_messages env msgs)"
  by (induction msgs) (auto intro!: keeps_return keeps_bind keeps_seq keeps_gets keeps_dispatch)

lemma keeps_checkpoint: "keeps_cleanups (checkpoint env k)"
  using keeps_handle_messages [of env "inbox env k"]
  by (simp add: keeps_cleanups_def checkpoint_def)

lemma keeps_await:
  assumes "\<not> is_cleanup ev"
  shows "keeps_cleanups (await_call env ev)"
  unfolding keeps_cleanups_def
proof
  fix s :: server
  let ?s1 = "s\<lparr>calls := calls s @ [ev]\<rparr>"
  have "cleanup_calls (calls (snd (checkpoint env (length (calls s)) ?s1))) = cleanup_calls (calls ?s1)"
    using keeps_checkpoint unfolding keeps_cleanups_def by blast
  moreover have "cleanup_calls (calls ?s1) = cleanup_calls (calls s)"
    using assms by (simp add: cleanup_calls_def)
  ultimately show "cleanup_calls (calls (snd (await_call env ev s))) = cleanup_calls (calls s)"
    by (auto simp: await_call_def Let_def split: prod.split sum.split)
qed

lemma keeps_publish_all: "keeps_cleanups (publish_all env msgs)"
  by (induction msgs) (auto intro!: keeps_return keeps_seq keeps_call)

lemma keeps_ha_discovery_announce: "keeps_cleanups (ha_discovery_announce env)"
  unfolding ha_discovery_announce_def
  by (intro keeps_bind keeps_gets keeps_lift keeps_publish_all)

lemma keeps_run_mqtt: "keeps_cleanups (run_mqtt env)"
  unfolding run_mqtt_def
  by (auto intro!: keeps_bind keeps_seq keeps_gets keeps_lift keeps_modify keeps_call keeps_return
        keeps_ha_discovery_announce split: option.split)

lemma keeps_nursery_start:
  assumes "keeps_cleanups until_started"
  shows "keeps_cleanups (nursery_start env n t until_started)"
  unfolding nursery_start_def
  using assms by (auto intro!: keeps_bind keeps_seq keeps_gets keeps_call keeps_checkpoint)

lemma keeps_handle_signals_started: "keeps_cleanups (handle_signals_started env)"
  unfolding handle_signals_started_def by (auto intro!: keeps_seq keeps_call)

lemma keeps_run_async: "keeps_cleanups (run_async env)"
  unfolding run_async_def
  by (auto intro!: keeps_bind keeps_seq keeps_gets keeps_lift keeps_modify keeps_call keeps_await
        keeps_mqtt keeps_nursery_start keeps_handle_signals_started keeps_run_mqtt)

lemma cleanup_calls_own: "cleanup_calls (own_calls evs) = cleanup_calls evs"
proof (induction evs)
  case Nil
  show ?case by simp
next
  case (Cons ev evs)
  have "is_dispatch ev \<Longrightarrow> \<not> is_cleanup ev"
    by (cases ev rule: is_dispatch.cases) simp_all
  then show ?case using Cons by (auto simp: cleanup_calls_def)
qed

lemma count_list_own:
  assumes "\<not> is_dispatch ev"
  shows "count_list (own_calls evs) ev = count_list evs ev"
  using assms by (induction evs) auto

lemma shutdown_steps_gen:
  assumes ok: "dispatch_ok env"
    and out: "\<And>k ev. \<not> is_cleanup ev \<Longrightarrow> outcome env k ev = None"
    and "getitem (config s) ''mqtt'' = Inr mc"
    and "status_topic mc = Inr t"
    and "status_payload mc ''status_payload_stopped'' = Inr p"
    and "priv_mqtt s = Some c"
    and "priv_main_nursery s = Some n"
    and cl: "steps s s (cleanup_modules env (io_modules s)) r L"
  shows "steps s s (shutdown env) r
           (Publish t p 1 True # Run_sync Wait_for_publish # Disconnect # Disconnect_event_wait #
            Cancel_scope_cancel n # L)"
  unfolding shutdown_def
  apply (rule steps_gets_const [where v = "config s"], simp)
  apply (simp only: assms(3))
  apply (rule steps_lift)
  apply (rule steps_mqtt [OF assms(6)])
  apply (simp only: assms(4))
  apply (rule steps_lift)
  apply (simp only: assms(5))
  apply (rule steps_lift)
  apply (rule steps_call_seq [OF out], simp, simp)
  apply (rule steps_await_seq [OF ok assms(7) out], simp, simp)
  apply (rule steps_mqtt [OF assms(6)])
  apply (rule steps_call_seq [OF out], simp, simp)
  apply (rule steps_mqtt [OF assms(6)])
  apply (rule steps_await_seq [OF ok assms(7) out], simp, simp)
  apply (rule steps_nursery [OF assms(7)])
  apply (rule steps_call_seq [OF out], simp, simp)
  apply (rule steps_gets_const [where v = "io_modules s"], simp)
  apply (rule cl)
  done

lemma cleanup_modules_steps_raise:
  assumes "dispatch_ok env" and "priv_main_nursery s = Some n"
    and "\<And>k ev. outcome env k ev = (if ev = Run_sync (Cleanup m) then Some e else None)"
    and "m \<notin> set before"
  shows "steps s s (cleanup_modules env (before @ m # after)) (Inl e)
           (map (\<lambda>m. Run_sync (Cleanup m)) before @ [Run_sync (Cleanup m)])"
  using assms(4)
proof (induction before)
  case Nil
  show ?case
    using steps_await_raise [OF assms(1,2), of "Run_sync (Cleanup m)" e] assms(3) by simp
next
  case (Cons b before)
  then have "b \<noteq> m" and "m \<notin> set before" by auto
  then have "\<And>k. outcome env k (Run_sync (Cleanup b)) = None"
    using assms(3) by simp
  from steps_await_seq [OF assms(1,2) this _ Cons.IH [OF \<open>m \<notin> set before\<close>]]
  show ?case by simp
qed

lemma publish_all_eq:
  assumes "\<And>k ev. outcome env k ev = None"
  shows "publish_all env msgs s = (Inr (), s\<lparr>calls := calls s @ map publish_event msgs\<rparr>)"
proof (induction msgs arbitrary: s)
  case Nil
  show ?case by (simp add: return_def)
next
  case (Cons msg msgs)
  show ?case
    using assms Cons [of "s\<lparr>calls := calls s @ [publish_event msg]\<rparr>"]
    by (simp add: seqP_def bindP_def call_def publish_event_def)
qed

lemma run_mqtt_eq:
  assumes out: "\<And>k ev. outcome env k ev = None"
    and mc: "getitem (config s) ''mqtt'' = Inr mc"
    and ha: "contains ''ha_discovery'' mc = Inr ha"
    and msgs: "if ha then ha_discovery_messages env mc (mqtt_client_options s) = Inr msgs
               else msgs = []"
  shows "run_mqtt env s =
           (Inr (), (connected s)\<lparr>calls := calls s @ run_mqtt_calls (mqtt_client_options s) msgs\<rparr>)"
  using mc ha msgs
  by (cases ha)
     (simp_all add: run_mqtt_def run_mqtt_calls_def connected_def bindP_def seqP_def gets_def
        modify_def lift_def return_def call_def out ha_discovery_announce_def
        publish_all_eq [OF out] split: option.split)

subsection \<open>The scenario, evaluated\<close>

lemmas prog_defs = bindP_def seqP_def gets_def modify_def lift_def return_def call_def
  await_call_def checkpoint_def receive_loop_spawned_def nursery_def mqtt_def trio_token_def
  nursery_start_def handle_signals_started_def bindE_def

lemma fresh_server_init: "mqttio_init quiet_env scenario_config = Inr fresh_server"
  by (simp add: mqttio_init_def init_mqtt_config_def scenario_config_def scenario_mqtt_def
      quiet_env_def fresh_server_def scenario_options_def home_digest_def bindE_def
      derive_client_id_def make_tls_options_def make_will_def lit_def utf8_codepoint_def)

lemma scenario_getitem_mqtt: "getitem scenario_config ''mqtt'' = Inr scenario_mqtt"
  by (simp add: scenario_config_def)

lemma scenario_status_topic: "status_topic scenario_mqtt = Inr (lit ''home/status'')"
  by (simp add: status_topic_def scenario_mqtt_def bindE_def lit_def)

lemma scenario_payloads:
  "status_payload scenario_mqtt ''status_payload_running'' = Inr [114, 117, 110]"
  "status_payload scenario_mqtt ''status_payload_stopped'' = Inr [115, 116, 111, 112]"
  by (simp_all add: status_payload_def scenario_mqtt_def bindE_def lit_def utf8_codepoint_def)

lemma scenario_no_discovery: "contains ''ha_discovery'' scenario_mqtt = Inr False"
  by (simp add: scenario_mqtt_def)

lemma quiet_no_raise: "no_raise quiet_env"
  by (simp add: no_raise_def quiet_env_def)

lemmas scenario_defs = fresh_server_def quiet_env_def scenario_options_def scenario_config_def
  scenario_mqtt_def scenario_client_def scenario_startup_def home_digest_def

lemmas eval_defs = run_async_def run_mqtt_def shutdown_def status_topic_def status_payload_def
  utf8_codepoint_def lit_def

lemma run_async_scenario:
  "run_async quiet_env fresh_server =
     (Inr (), fresh_server\<lparr>priv_trio_token := Some (Trio_token 0),
        priv_main_nursery := Some Main_nursery, priv_mqtt_nursery := Some Mqtt_nursery,
        priv_mqtt := Some scenario_client, calls := scenario_startup\<rparr>)"
  by (simp add: prog_defs scenario_defs eval_defs)

lemma running_server_eq:
  "running_server = fresh_server\<lparr>priv_trio_token := Some (Trio_token 0),
        priv_main_nursery := Some Main_nursery, priv_mqtt_nursery := Some Mqtt_nursery,
        priv_mqtt := Some scenario_client, calls := scenario_startup\<rparr>"
  by (simp add: running_server_def run_async_scenario)

subsection \<open>Runs in any environment\<close>






lemma upto_lift:
  assumes "steps_upto s (f v) L"
  shows "steps_upto s (bindP (lift (Inr v)) f) L"
  using assms unfolding steps_upto_def by (simp add: bindP_def lift_def)















lemma signal_env_startup: "run_async signal_env fresh_server = (Inr (), running_server)"
  by (simp add: signal_env_def running_server_eq prog_defs scenario_defs eval_defs)

subsection \<open>The options\<close>

lemma init_mqtt_config_result:
  assumes "getitem cfg ''mqtt'' = Inr mc"
    and "getitem mc ''topic_prefix'' = Inr topic_prefix"
    and "getitem mc ''client_id'' = Inr configured"
    and "derive_client_id sha1 topic_prefix configured = Inr cid"
    and "make_tls_options mc = Inr tls"
    and "getitem mc ''host'' = Inr h"
    and "getitem mc ''port'' = Inr po"
    and "getitem mc ''user'' = Inr u"
    and "getitem mc ''password'' = Inr pw"
    and "getitem mc ''keepalive'' = Inr ka"
    and "getitem mc ''clean_session'' = Inr cs"
    and "make_will mc topic_prefix = Inr w"
  shows "init_mqtt_config sha1 cfg =
     Inr \<lparr>hostname = h, port = po, username = u, password = pw, client_id = cid,
          keepalive = ka, clean_session = cs, tls_options = tls, will = Some w\<rparr>"
  using assms by (simp add: init_mqtt_config_def bindE_def)

section \<open>The claims\<close>

text \<open>
  C1 (the code departs from the claim). A signal after startup, in the scenario: the
  signal watcher runs \<^verbatim>\<open>shutdown\<close>, which publishes the stopped payload to the status
  topic with qos 1 and retain, waits for the publish, disconnects, waits for the
  disconnect event and cancels the scope of the main nursery, in this order. The shutdown
  runs inside that scope, so the first \<^verbatim>\<open>run_sync\<close> of a cleanup raises
  \<^verbatim>\<open>Cancelled\<close> on entry: the shutdown and the signal watcher end with it, the cleanup
  of GPIO does not run, and the cleanup of SensorIO and of StreamIO is never asked for.
\<close>

theorem signal_shutdown_runs_no_cleanup:
  "handle_signals_loop signal_env [2] (snd (run_async signal_env fresh_server)) =
     (Inl Cancelled,
      running_server\<lparr>calls := calls running_server @
        [Publish (lit ''home/status'') [115, 116, 111, 112] 1 True, Run_sync Wait_for_publish,
         Disconnect, Disconnect_event_wait, Cancel_scope_cancel Main_nursery,
         Run_sync (Cleanup GPIO)]\<rparr>)"
  by (simp add: signal_env_startup)
     (simp add: signal_env_def running_server_eq prog_defs scenario_defs eval_defs)




text \<open>
  C3 (amended). Startup never invokes a module's cleanup, whatever the collaborators do and
  whether the inits succeed, fail or are never reached: the calls of \<^verbatim>\<open>run_async\<close>
  contain no cleanup. Cleanup is invoked by \<^verbatim>\<open>shutdown\<close> only: a shutdown in which no
  call raises invokes the cleanup of GPIO, SensorIO and StreamIO once each, in this order.
\<close>

theorem cleanup_only_by_shutdown:
  assumes "no_raise env"
    and "getitem (config s) ''mqtt'' = Inr mqtt_config"
    and "status_topic mqtt_config = Inr t"
    and "status_payload mqtt_config ''status_payload_stopped'' = Inr p"
    and "priv_mqtt s = Some c"
    and "priv_main_nursery s = Some n"
    and "io_modules s = [GPIO, SensorIO, StreamIO]"
  shows "cleanup_calls (calls (snd (run_async any_env any_s))) = cleanup_calls (calls any_s) \<and>
         (\<exists>new. shutdown env s = (Inr (), s\<lparr>calls := calls s @ new\<rparr>) \<and>
            cleanup_calls new =
              [Run_sync (Cleanup GPIO), Run_sync (Cleanup SensorIO), Run_sync (Cleanup StreamIO)])"
proof
  show "cleanup_calls (calls (snd (run_async any_env any_s))) = cleanup_calls (calls any_s)"
    using keeps_run_async [of any_env] unfolding keeps_cleanups_def by blast
next
  from steps_run [OF shutdown_steps [OF assms(1-6)]] assms(7)
  obtain new where r: "shutdown env s = (Inr (), s\<lparr>calls := calls s @ new\<rparr>)"
    and o: "own_calls new =
      [Publish t p 1 True, Run_sync Wait_for_publish, Disconnect, Disconnect_event_wait,
       Cancel_scope_cancel n,
       Run_sync (Cleanup GPIO), Run_sync (Cleanup SensorIO), Run_sync (Cleanup StreamIO)]"
    by auto
  have "cleanup_calls new = cleanup_calls (own_calls new)"
    by (simp add: cleanup_calls_own)
  also have "\<dots> = [Run_sync (Cleanup GPIO), Run_sync (Cleanup SensorIO), Run_sync (Cleanup StreamIO)]"
    by (simp add: o cleanup_calls_def)
  finally show "\<exists>new. shutdown env s = (Inr (), s\<lparr>calls := calls s @ new\<rparr>) \<and>
      cleanup_calls new =
        [Run_sync (Cleanup GPIO), Run_sync (Cleanup SensorIO), Run_sync (Cleanup StreamIO)]"
    using r by blast
qed

theorem cleanup_only_by_shutdown_witness:
  "cleanup_calls (calls (snd (run_async failing_init_env fresh_server))) = [] \<and>
   (\<exists>new. shutdown quiet_env running_server =
            (Inr (), running_server\<lparr>calls := calls running_server @ new\<rparr>) \<and>
          cleanup_calls new =
            [Run_sync (Cleanup GPIO), Run_sync (Cleanup SensorIO), Run_sync (Cleanup StreamIO)])"
  using cleanup_only_by_shutdown [where env = quiet_env and s = running_server
      and mqtt_config = scenario_mqtt and c = scenario_client and n = Main_nursery
      and t = "lit ''home/status''" and p = "[115, 116, 111, 112]"
      and any_env = failing_init_env and any_s = fresh_server]
  by (simp add: quiet_no_raise scenario_status_topic scenario_payloads running_server_eq
        fresh_server_def scenario_config_def cleanup_calls_def)

theorem init_failure_counterexample:
  "run_async failing_init_env fresh_server =
     (Inl (Raised 1),
      fresh_server\<lparr>priv_trio_token := Some (Trio_token 0),
        priv_main_nursery := Some Main_nursery, priv_mqtt_nursery := Some Mqtt_nursery,
        priv_mqtt := Some scenario_client,
        calls :=
          [Nursery_start Main_nursery Handle_signals, Open_signal_receiver,
           Task_started Handle_signals, Nursery_start Main_nursery Event_bus_run,
           Nursery_start Main_nursery Run_mqtt,
           Client_new Mqtt_nursery (client_id scenario_options) (PBool False),
           Enable_logger,
           Connect (PStr (lit ''localhost'')) (PInt 1883) (PInt 10),
           Will_set (lit ''home/status'') [100, 101, 97, 100] 1 True,
           Start_soon Mqtt_nursery Handle_messages, Task_started Run_mqtt,
           Module_init GPIO]\<rparr>)"
  by (simp add: failing_init_env_def prog_defs scenario_defs eval_defs)

text \<open>
  C4 (amended). \<^verbatim>\<open>run_mqtt\<close> issues \<^verbatim>\<open>connect(host, port, keepalive)\<close> first and, when
  the options carry a Will, \<^verbatim>\<open>will_set(topic, payload, qos, retain)\<close> as the very next
  call, with no suspension point between the two; the TLS context and the credentials are
  set before the connect, and the receive loop is spawned after the Will is set.
\<close>

theorem will_set_follows_connect:
  assumes "no_raise env"
    and "getitem (config s) ''mqtt'' = Inr mqtt_config"
    and "contains ''ha_discovery'' mqtt_config = Inr ha"
    and "if ha then ha_discovery_messages env mqtt_config (mqtt_client_options s) = Inr announcements
         else announcements = []"
    and "will (mqtt_client_options s) = Some w"
  shows "run_mqtt env s =
           (Inr (), (connected s)\<lparr>calls := calls s @
              (Client_new Mqtt_nursery (client_id (mqtt_client_options s))
                 (clean_session (mqtt_client_options s)) #
               Enable_logger #
               (case tls_options (mqtt_client_options s) of None \<Rightarrow> []
                | Some tls \<Rightarrow> [Ssl_context tls, Tls_set_context tls]) @
               (if username (mqtt_client_options s) \<noteq> PNone
                then [Username_pw_set (username (mqtt_client_options s))
                        (password (mqtt_client_options s))]
                else [])) @
              [Connect (hostname (mqtt_client_options s)) (port (mqtt_client_options s))
                 (keepalive (mqtt_client_options s)),
               Will_set (will_topic w) (will_payload w) (will_qos w) (will_retain w),
               Start_soon Mqtt_nursery Handle_messages] @
              map publish_event announcements @ [Task_started Run_mqtt]\<rparr>)"
proof -
  have out: "\<And>k ev. outcome env k ev = None"
    using assms(1) by (simp add: no_raise_def)
  show ?thesis
    using run_mqtt_eq [OF out assms(2,3,4)] assms(5) by (simp add: run_mqtt_calls_def)
qed

theorem will_set_follows_connect_witness:
  "run_mqtt quiet_env fresh_server =
     (Inr (), (connected fresh_server)\<lparr>calls :=
        [Client_new Mqtt_nursery (client_id scenario_options) (PBool False), Enable_logger,
         Connect (PStr (lit ''localhost'')) (PInt 1883) (PInt 10),
         Will_set (lit ''home/status'') [100, 101, 97, 100] 1 True,
         Start_soon Mqtt_nursery Handle_messages, Task_started Run_mqtt]\<rparr>)"
  using will_set_follows_connect [where env = quiet_env and s = fresh_server
      and mqtt_config = scenario_mqtt and ha = False and announcements = "[]"
      and w = "\<lparr>will_topic = lit ''home/status'', will_payload = [100, 101, 97, 100],
                 will_qos = 1, will_retain = True\<rparr>"]
  by (simp add: quiet_no_raise scenario_no_discovery fresh_server_def scenario_config_def
        scenario_options_def)

theorem connect_before_will_counterexample:
  "calls (snd (run_mqtt quiet_env fresh_server)) ! 2 =
     Connect (PStr (lit ''localhost'')) (PInt 1883) (PInt 10) \<and>
   calls (snd (run_mqtt quiet_env fresh_server)) ! 3 =
     Will_set (lit ''home/status'') [100, 101, 97, 100] 1 True"
  by (simp add: prog_defs scenario_defs eval_defs)

text \<open>
  C5 (amended). On a startup in which no call raises, \<^verbatim>\<open>run_async\<close> publishes the
  running payload to the status topic with qos 1 and retain exactly once (apart from
  discovery announcements that are this very message), as its last call but one, after the
  three inits and after \<^verbatim>\<open>run_mqtt\<close> has spawned the receive loop. Dispatch is not held
  back until then: a message that arrives while an init is awaited is dispatched to the
  modules before the running status is published.
\<close>

theorem running_status_after_inits:
  assumes "no_raise env"
    and "getitem (config s) ''mqtt'' = Inr mqtt_config"
    and "contains ''ha_discovery'' mqtt_config = Inr ha"
    and "if ha then ha_discovery_messages env mqtt_config (mqtt_client_options s) = Inr announcements
         else announcements = []"
    and "status_topic mqtt_config = Inr t"
    and "status_payload mqtt_config ''status_payload_running'' = Inr p"
  shows "\<exists>new. run_async env s = (Inr (), (started env s)\<lparr>calls := calls s @ new\<rparr>) \<and>
           own_calls new =
             [Nursery_start Main_nursery Handle_signals, Open_signal_receiver,
              Task_started Handle_signals, Nursery_start Main_nursery Event_bus_run,
              Nursery_start Main_nursery Run_mqtt] @
             run_mqtt_calls (mqtt_client_options s) announcements @
             [Module_init GPIO, Module_init SensorIO, Module_init StreamIO,
              Publish t p 1 True, Set_connect_message t p 1 True] \<and>
           Start_soon Mqtt_nursery Handle_messages
             \<in> set (run_mqtt_calls (mqtt_client_options s) announcements) \<and>
           count_list new (Publish t p 1 True) =
             1 + count_list (map publish_event announcements) (Publish t p 1 True)"
proof -
  have out: "\<And>k ev. outcome env k ev = None"
    using assms(1) by (simp add: no_raise_def)
  from steps_run [OF run_async_steps [OF out assms(2-6)]]
  obtain new where r: "run_async env s = (Inr (), (started env s)\<lparr>calls := calls s @ new\<rparr>)"
    and o: "own_calls new = startup_calls (mqtt_client_options s) announcements t p"
    by blast
  have "count_list new (Publish t p 1 True) = count_list (own_calls new) (Publish t p 1 True)"
    by (simp add: count_list_own)
  also have "\<dots> = 1 + count_list (map publish_event announcements) (Publish t p 1 True)"
    by (simp add: o startup_calls_def run_mqtt_calls_def split: option.split)
  finally have c: "count_list new (Publish t p 1 True) =
      1 + count_list (map publish_event announcements) (Publish t p 1 True)" .
  have m: "Start_soon Mqtt_nursery Handle_messages
      \<in> set (run_mqtt_calls (mqtt_client_options s) announcements)"
    by (simp add: run_mqtt_calls_def)
  show ?thesis
    using r o c m by (intro exI [of _ new]) (simp add: startup_calls_def)
qed

theorem running_status_after_inits_witness:
  "\<exists>new. run_async early_message_env fresh_server =
           (Inr (), (started early_message_env fresh_server)\<lparr>calls := calls fresh_server @ new\<rparr>) \<and>
         own_calls new =
           [Nursery_start Main_nursery Handle_signals, Open_signal_receiver,
            Task_started Handle_signals, Nursery_start Main_nursery Event_bus_run,
            Nursery_start Main_nursery Run_mqtt,
            Client_new Mqtt_nursery (client_id scenario_options) (PBool False),
            Enable_logger,
            Connect (PStr (lit ''localhost'')) (PInt 1883) (PInt 10),
            Will_set (lit ''home/status'') [100, 101, 97, 100] 1 True,
            Start_soon Mqtt_nursery Handle_messages, Task_started Run_mqtt,
            Module_init GPIO, Module_init SensorIO, Module_init StreamIO,
            Publish (lit ''home/status'') [114, 117, 110] 1 True,
            Set_connect_message (lit ''home/status'') [114, 117, 110] 1 True] \<and>
         count_list new (Publish (lit ''home/status'') [114, 117, 110] 1 True) = 1"
  using running_status_after_inits [where env = early_message_env and s = fresh_server
      and mqtt_config = scenario_mqtt and ha = False and announcements = "[]"
      and t = "lit ''home/status''" and p = "[114, 117, 110]"]
  by (simp add: early_message_env_def quiet_env_def no_raise_def scenario_no_discovery
        scenario_status_topic scenario_payloads fresh_server_def scenario_config_def
        scenario_options_def run_mqtt_calls_def)

theorem dispatch_before_running_counterexample:
  "run_async early_message_env fresh_server =
     (Inr (),
      fresh_server\<lparr>priv_trio_token := Some (Trio_token 0),
        priv_main_nursery := Some Main_nursery, priv_mqtt_nursery := Some Mqtt_nursery,
        priv_mqtt := Some scenario_client,
        calls :=
          [Nursery_start Main_nursery Handle_signals, Open_signal_receiver,
           Task_started Handle_signals, Nursery_start Main_nursery Event_bus_run,
           Nursery_start Main_nursery Run_mqtt,
           Client_new Mqtt_nursery (client_id scenario_options) (PBool False),
           Enable_logger,
           Connect (PStr (lit ''localhost'')) (PInt 1883) (PInt 10),
           Will_set (lit ''home/status'') [100, 101, 97, 100] 1 True,
           Start_soon Mqtt_nursery Handle_messages, Task_started Run_mqtt,
           Module_init GPIO,
           Start_soon Main_nursery
             (Handle_mqtt_msg GPIO (lit ''home/output/pin0/set'') [79, 78]),
           Start_soon Main_nursery
             (Handle_mqtt_msg SensorIO (lit ''home/output/pin0/set'') [79, 78]),
           Start_soon Main_nursery
             (Handle_mqtt_msg StreamIO (lit ''home/output/pin0/set'') [79, 78]),
           Module_init SensorIO, Module_init StreamIO,
           Publish (lit ''home/status'') [114, 117, 110] 1 True,
           Set_connect_message (lit ''home/status'') [114, 117, 110] 1 True]\<rparr>)"
  by (simp add: early_message_env_def early_message_def prog_defs scenario_defs eval_defs)

text \<open>
  C6 (amended). \<^verbatim>\<open>shutdown\<close> does not catch an error of a cleanup: when the cleanup
  of a module raises (every other call returning), the error is the result of
  \<^verbatim>\<open>shutdown\<close>, the modules registered before it have been cleaned up, and the cleanup
  of the modules registered after it is never invoked.
\<close>

theorem cleanup_error_propagates:
  assumes "\<forall>k ev. outcome env k ev = (if ev = Run_sync (Cleanup m) then Some e else None)"
    and "getitem (config s) ''mqtt'' = Inr mqtt_config"
    and "status_topic mqtt_config = Inr t"
    and "status_payload mqtt_config ''status_payload_stopped'' = Inr p"
    and "priv_mqtt s = Some c"
    and "priv_main_nursery s = Some n"
    and "io_modules s = before @ m # after"
    and "m \<notin> set before"
  shows "\<exists>new. shutdown env s = (Inl e, s\<lparr>calls := calls s @ new\<rparr>) \<and>
           own_calls new =
             [Publish t p 1 True, Run_sync Wait_for_publish, Disconnect, Disconnect_event_wait,
              Cancel_scope_cancel n] @
             map (\<lambda>m. Run_sync (Cleanup m)) before @ [Run_sync (Cleanup m)]"
proof -
  have ok: "dispatch_ok env"
    using assms(1) by (simp add: dispatch_ok_def)
  have out: "\<And>k ev. \<not> is_cleanup ev \<Longrightarrow> outcome env k ev = None"
    using assms(1) by auto
  have oc: "\<And>k ev. outcome env k ev = (if ev = Run_sync (Cleanup m) then Some e else None)"
    using assms(1) by blast
  have cl: "steps s s (cleanup_modules env (io_modules s)) (Inl e)
      (map (\<lambda>m. Run_sync (Cleanup m)) before @ [Run_sync (Cleanup m)])"
    using cleanup_modules_steps_raise [OF ok assms(6) oc assms(8)] assms(7) by simp
  from steps_run [OF shutdown_steps_gen [OF ok out assms(2-6) cl]]
  show ?thesis by simp
qed

theorem cleanup_error_propagates_witness:
  "\<exists>new. shutdown failing_cleanup_env running_server =
           (Inl (Raised 1), running_server\<lparr>calls := calls running_server @ new\<rparr>) \<and>
         own_calls new =
           [Publish (lit ''home/status'') [115, 116, 111, 112] 1 True, Run_sync Wait_for_publish,
            Disconnect, Disconnect_event_wait, Cancel_scope_cancel Main_nursery,
            Run_sync (Cleanup GPIO)]"
  using cleanup_error_propagates [where env = failing_cleanup_env and s = running_server
      and mqtt_config = scenario_mqtt and c = scenario_client and n = Main_nursery
      and t = "lit ''home/status''" and p = "[115, 116, 111, 112]"
      and m = GPIO and e = "Raised 1" and before = "[]" and after = "[SensorIO, StreamIO]"]
  by (simp add: failing_cleanup_env_def quiet_env_def scenario_status_topic scenario_payloads
        running_server_eq fresh_server_def scenario_config_def)

theorem cleanup_error_counterexample:
  "shutdown failing_cleanup_env running_server =
     (Inl (Raised 1), running_server\<lparr>calls := calls running_server @
        [Publish (lit ''home/status'') [115, 116, 111, 112] 1 True, Run_sync Wait_for_publish,
         Disconnect, Disconnect_event_wait, Cancel_scope_cancel Main_nursery,
         Run_sync (Cleanup GPIO)]\<rparr>)"
  by (simp add: failing_cleanup_env_def running_server_eq prog_defs scenario_defs eval_defs)

text \<open>
  C7. When \<^verbatim>\<open>start_soon\<close> does not raise, the receive loop spawns, for every message
  of the incoming sequence in its order, the handler of GPIO, then of SensorIO, then of
  StreamIO, each with the topic and the payload of the message, in the main nursery. The
  loop issues nothing else and awaits no handler.
\<close>

theorem handle_messages_fan_out:
  assumes "dispatch_ok env"
    and "priv_main_nursery s = Some n"
    and "io_modules s = [GPIO, SensorIO, StreamIO]"
  shows "handle_messages env msgs s =
           (Inr (), s\<lparr>calls := calls s @
              concat (map (\<lambda>msg.
                [Start_soon n (Handle_mqtt_msg GPIO (msg_topic msg) (msg_payload msg)),
                 Start_soon n (Handle_mqtt_msg SensorIO (msg_topic msg) (msg_payload msg)),
                 Start_soon n (Handle_mqtt_msg StreamIO (msg_topic msg) (msg_payload msg))])
                msgs)\<rparr>)"
  using handle_messages_eq [OF assms(1,2), of msgs] assms(3) by (simp add: fan_out_def)

theorem handle_messages_fan_out_witness:
  "handle_messages quiet_env
     [\<lparr>msg_topic = lit ''a'', msg_payload = [1]\<rparr>, \<lparr>msg_topic = lit ''b'', msg_payload = [2]\<rparr>]
     running_server =
     (Inr (), running_server\<lparr>calls := calls running_server @
        [Start_soon Main_nursery (Handle_mqtt_msg GPIO (lit ''a'') [1]),
         Start_soon Main_nursery (Handle_mqtt_msg SensorIO (lit ''a'') [1]),
         Start_soon Main_nursery (Handle_mqtt_msg StreamIO (lit ''a'') [1]),
         Start_soon Main_nursery (Handle_mqtt_msg GPIO (lit ''b'') [2]),
         Start_soon Main_nursery (Handle_mqtt_msg SensorIO (lit ''b'') [2]),
         Start_soon Main_nursery (Handle_mqtt_msg StreamIO (lit ''b'') [2])]\<rparr>)"
  using handle_messages_fan_out [where env = quiet_env and s = running_server
      and n = Main_nursery
      and msgs = "[\<lparr>msg_topic = lit ''a'', msg_payload = [1]\<rparr>,
                   \<lparr>msg_topic = lit ''b'', msg_payload = [2]\<rparr>]"]
  by (simp add: dispatch_ok_def quiet_env_def running_server_eq fresh_server_def)

text \<open>
  C8. For a configuration whose \<^verbatim>\<open>client_id\<close> is \<^verbatim>\<open>None\<close> or the empty string (and
  whose other entries let the options be built), the client id of the options is
  \<^verbatim>\<open>"mqtt-io-"\<close> followed by the SHA-1 hex digest of the UTF-8 bytes of the topic prefix:
  a function of the topic prefix alone. In the scenario the prefix is \<^verbatim>\<open>"home"\<close>.
\<close>

theorem derived_client_id:
  assumes "getitem cfg ''mqtt'' = Inr mqtt_config"
    and "getitem mqtt_config ''topic_prefix'' = Inr (PStr topic_prefix)"
    and "encode_utf8 topic_prefix = Inr b"
    and "getitem mqtt_config ''client_id'' = Inr cid"
    and "cid = PNone \<or> cid = PStr []"
    and "make_tls_options mqtt_config = Inr tls"
    and "getitem mqtt_config ''host'' = Inr h"
    and "getitem mqtt_config ''port'' = Inr po"
    and "getitem mqtt_config ''user'' = Inr u"
    and "getitem mqtt_config ''password'' = Inr pw"
    and "getitem mqtt_config ''keepalive'' = Inr ka"
    and "getitem mqtt_config ''clean_session'' = Inr cs"
    and "make_will mqtt_config (PStr topic_prefix) = Inr w"
  shows "\<exists>options. init_mqtt_config sha1 cfg = Inr options \<and>
           client_id options = PStr (lit ''mqtt-io-'' @ sha1 b)"
proof -
  have "derive_client_id sha1 (PStr topic_prefix) cid = Inr (PStr (lit ''mqtt-io-'' @ sha1 b))"
    using assms(3,5) by (auto simp: derive_client_id_def bindE_def)
  from init_mqtt_config_result [OF assms(1,2,4) this assms(6-13)]
  show ?thesis by simp
qed

theorem derived_client_id_witness:
  "\<forall>sha1. \<exists>options. init_mqtt_config sha1 scenario_config = Inr options \<and>
      client_id options = PStr (lit ''mqtt-io-'' @ sha1 [104, 111, 109, 101])"
proof
  fix sha1
  show "\<exists>options. init_mqtt_config sha1 scenario_config = Inr options \<and>
      client_id options = PStr (lit ''mqtt-io-'' @ sha1 [104, 111, 109, 101])"
    by (rule derived_client_id [where mqtt_config = scenario_mqtt
          and topic_prefix = "lit ''home''" and cid = "PStr []"])
       (simp_all add: scenario_config_def scenario_mqtt_def lit_def bindE_def utf8_codepoint_def
          make_tls_options_def make_will_def)
qed

text \<open>
  C9. For a configuration from which the options can be built, the Will of the options has
  the topic \<^verbatim>\<open>topic_prefix + "/" + status_topic\<close>, the payload the UTF-8 bytes of
  \<^verbatim>\<open>status_payload_dead\<close>, qos 1 and retain set. In the scenario the topic is
  \<^verbatim>\<open>"home/status"\<close> and the payload \<^verbatim>\<open>b"dead"\<close>.
\<close>

theorem constructed_will:
  assumes "getitem cfg ''mqtt'' = Inr mqtt_config"
    and "getitem mqtt_config ''topic_prefix'' = Inr (PStr topic_prefix)"
    and "getitem mqtt_config ''client_id'' = Inr configured"
    and "derive_client_id sha1 (PStr topic_prefix) configured = Inr cid"
    and "make_tls_options mqtt_config = Inr tls"
    and "getitem mqtt_config ''host'' = Inr h"
    and "getitem mqtt_config ''port'' = Inr po"
    and "getitem mqtt_config ''user'' = Inr u"
    and "getitem mqtt_config ''password'' = Inr pw"
    and "getitem mqtt_config ''keepalive'' = Inr ka"
    and "getitem mqtt_config ''clean_session'' = Inr cs"
    and "getitem mqtt_config ''status_topic'' = Inr (PStr st)"
    and "getitem mqtt_config ''status_payload_dead'' = Inr (PStr dead)"
    and "encode_utf8 dead = Inr b"
  shows "\<exists>options. init_mqtt_config sha1 cfg = Inr options \<and>
           will options = Some \<lparr>will_topic = topic_prefix @ lit ''/'' @ st, will_payload = b,
                                 will_qos = 1, will_retain = True\<rparr>"
proof -
  have "make_will mqtt_config (PStr topic_prefix) =
      Inr \<lparr>will_topic = topic_prefix @ lit ''/'' @ st, will_payload = b, will_qos = 1,
           will_retain = True\<rparr>"
    using assms(12,13,14) by (simp add: make_will_def bindE_def)
  from init_mqtt_config_result [OF assms(1-11) this]
  show ?thesis by simp
qed

theorem constructed_will_witness:
  "\<forall>sha1. \<exists>options. init_mqtt_config sha1 scenario_config = Inr options \<and>
      will options = Some \<lparr>will_topic = lit ''home/status'', will_payload = [100, 101, 97, 100],
                            will_qos = 1, will_retain = True\<rparr>"
proof
  fix sha1
  have "\<exists>options. init_mqtt_config sha1 scenario_config = Inr options \<and>
      will options = Some \<lparr>will_topic = lit ''home'' @ lit ''/'' @ lit ''status'',
                            will_payload = [100, 101, 97, 100],
                            will_qos = 1, will_retain = True\<rparr>"
    by (rule constructed_will [where mqtt_config = scenario_mqtt and configured = "PStr []"
          and cid = "PStr (lit ''mqtt-io-'' @ sha1 [104, 111, 109, 101])"
          and dead = "lit ''dead''"])
       (simp_all add: scenario_config_def scenario_mqtt_def lit_def bindE_def utf8_codepoint_def
          make_tls_options_def derive_client_id_def)
  then show "\<exists>options. init_mqtt_config sha1 scenario_config = Inr options \<and>
      will options = Some \<lparr>will_topic = lit ''home/status'', will_payload = [100, 101, 97, 100],
                            will_qos = 1, will_retain = True\<rparr>"
    by (simp add: lit_def)
qed

text \<open>
  C10. On a server as the constructor leaves it, each of the accessors \<^verbatim>\<open>nursery\<close>,
  \<^verbatim>\<open>mqtt\<close> and \<^verbatim>\<open>trio_token\<close> raises a \<^verbatim>\<open>RuntimeError\<close>; in any state an accessor
  raises when its field is \<^verbatim>\<open>None\<close> and returns the stored instance otherwise; and after
  a startup in which no call raises, the accessors return the main nursery, the client that
  \<^verbatim>\<open>run_mqtt\<close> created and the token that \<^verbatim>\<open>run_async\<close> stored.
\<close>

theorem accessors_guarded:
  assumes "mqttio_init env cfg = Inr s0"
    and "no_raise env"
    and "getitem cfg ''mqtt'' = Inr mqtt_config"
    and "contains ''ha_discovery'' mqtt_config = Inr ha"
    and "if ha then ha_discovery_messages env mqtt_config (mqtt_client_options s0) = Inr announcements
         else announcements = []"
    and "status_topic mqtt_config = Inr t"
    and "status_payload mqtt_config ''status_payload_running'' = Inr p"
  shows "nursery s0 = (Inl (RuntimeError ''Nursery has not been initialised''), s0) \<and>
         mqtt s0 = (Inl (RuntimeError ''MQTT is not initialised''), s0) \<and>
         trio_token s0 = (Inl (RuntimeError ''Server has not yet been run()''), s0) \<and>
         nursery s = (case priv_main_nursery s of
                        None \<Rightarrow> (Inl (RuntimeError ''Nursery has not been initialised''), s)
                      | Some x \<Rightarrow> (Inr x, s)) \<and>
         mqtt s = (case priv_mqtt s of
                     None \<Rightarrow> (Inl (RuntimeError ''MQTT is not initialised''), s)
                   | Some x \<Rightarrow> (Inr x, s)) \<and>
         trio_token s = (case priv_trio_token s of
                           None \<Rightarrow> (Inl (RuntimeError ''Server has not yet been run()''), s)
                         | Some x \<Rightarrow> (Inr x, s)) \<and>
         (\<exists>s1. run_async env s0 = (Inr (), s1) \<and>
            nursery s1 = (Inr Main_nursery, s1) \<and>
            mqtt s1 = (Inr (AnyIOMQTTClient Mqtt_nursery (client_id (mqtt_client_options s0))
                              (clean_session (mqtt_client_options s0))), s1) \<and>
            trio_token s1 = (Inr (current_trio_token env), s1))"
proof -
  from assms(1) obtain options where s0: "s0 =
      \<lparr>config = cfg, mqtt_client_options = options, priv_trio_token = None,
       priv_main_nursery = None, priv_mqtt_nursery = None, priv_mqtt = None,
       io_modules = [GPIO, SensorIO, StreamIO], calls = []\<rparr>"
    by (auto simp: mqttio_init_def bindE_def split: sum.splits)
  have out: "\<And>k ev. outcome env k ev = None"
    using assms(2) by (simp add: no_raise_def)
  have cfg: "getitem (config s0) ''mqtt'' = Inr mqtt_config"
    using assms(3) s0 by simp
  from steps_run [OF run_async_steps [OF out cfg assms(4-7)]]
  obtain new where r: "run_async env s0 = (Inr (), (started env s0)\<lparr>calls := calls s0 @ new\<rparr>)"
    by blast
  let ?s1 = "(started env s0)\<lparr>calls := calls s0 @ new\<rparr>"
  have "nursery ?s1 = (Inr Main_nursery, ?s1)"
    and "mqtt ?s1 = (Inr (AnyIOMQTTClient Mqtt_nursery (client_id (mqtt_client_options s0))
                              (clean_session (mqtt_client_options s0))), ?s1)"
    and "trio_token ?s1 = (Inr (current_trio_token env), ?s1)"
    by (simp_all add: nursery_def mqtt_def trio_token_def started_def connected_def)
  with r have "\<exists>s1. run_async env s0 = (Inr (), s1) \<and>
            nursery s1 = (Inr Main_nursery, s1) \<and>
            mqtt s1 = (Inr (AnyIOMQTTClient Mqtt_nursery (client_id (mqtt_client_options s0))
                              (clean_session (mqtt_client_options s0))), s1) \<and>
            trio_token s1 = (Inr (current_trio_token env), s1)"
    by blast
  moreover have "nursery s0 = (Inl (RuntimeError ''Nursery has not been initialised''), s0)"
    and "mqtt s0 = (Inl (RuntimeError ''MQTT is not initialised''), s0)"
    and "trio_token s0 = (Inl (RuntimeError ''Server has not yet been run()''), s0)"
    by (simp_all add: s0 nursery_def mqtt_def trio_token_def)
  ultimately show ?thesis
    by (simp add: nursery_def mqtt_def trio_token_def)
qed

theorem accessors_guarded_witness:
  "nursery fresh_server = (Inl (RuntimeError ''Nursery has not been initialised''), fresh_server) \<and>
   mqtt fresh_server = (Inl (RuntimeError ''MQTT is not initialised''), fresh_server) \<and>
   trio_token fresh_server = (Inl (RuntimeError ''Server has not yet been run()''), fresh_server) \<and>
   nursery running_server = (Inr Main_nursery, running_server) \<and>
   mqtt running_server = (Inr scenario_client, running_server) \<and>
   trio_token running_server = (Inr (Trio_token 0), running_server)"
  using accessors_guarded [where env = quiet_env and cfg = scenario_config
      and ?s0.0 = fresh_server and s = running_server and mqtt_config = scenario_mqtt
      and ha = False and announcements = "[]" and t = "lit ''home/status''"
      and p = "[114, 117, 110]"]
  by (simp add: fresh_server_init quiet_no_raise scenario_getitem_mqtt scenario_no_discovery
        scenario_status_topic scenario_payloads running_server_eq)

end
